theory Spec2Isabelle
  imports Complex_Main "HOL-Library.Word"
begin

section \<open>Errors\<close>

text \<open>
  The sentinel errors of package \<open>errors\<close>. \<open>ErrDriver\<close> stands for an error of the
  datastore driver that the repositories wrap without any sentinel (for example a
  duplicate \<open>_id\<close> on an insert that the repository does not translate), \<open>ErrJSON\<close>
  for an error of \<open>encoding/json\<close>.
\<close>

datatype sentinel =
    ErrValidation | ErrNotFound | ErrConflict | ErrForbidden | ErrUnauthorized
  | ErrInsufficient | ErrWrongStepOrder | ErrNotInRange | ErrAlreadyHandled
  | ErrInvalidArgument | ErrDriver | ErrJSON

text \<open>
  A Go error built by \<open>fmt.Errorf("msg: %w", err)\<close> is the chain of message prefixes
  (outermost first) around a sentinel. Format verbs keep their place holders.
\<close>

datatype app_error = Err (msgs: "string list") (cause: sentinel)

fun wrap :: "string \<Rightarrow> app_error \<Rightarrow> app_error" where
  "wrap m (Err ms s) = Err (m # ms) s"

definition errors_Is :: "app_error \<Rightarrow> sentinel \<Rightarrow> bool" where
  "errors_Is e s = (cause e = s)"

section \<open>float64\<close>

text \<open>
  An IEEE 754 double is a finite number, an infinity or NaN. A finite number is carried
  as a real. An operation on finite numbers overflows to the infinity of its sign when the
  magnitude of the exact result reaches \<open>2 ^ 1024 - 2 ^ 970\<close>, the point from which
  rounding to nearest leaves the range that ends at \<open>math.MaxFloat64\<close>; below that
  point the exact result is kept. The special cases are those of IEEE 754. Rounding
  inside the range and the sign of zero are left out (a zero divisor counts as \<open>+0\<close>).
\<close>

datatype float64 = Finite real | PosInf | NegInf | NaN

definition MaxFloat64 :: real where
  "MaxFloat64 = (2 ^ 53 - 1) * 2 ^ 971"

definition overflow_bound :: real where
  "overflow_bound = 2 ^ 1024 - 2 ^ 970"

definition fl :: "real \<Rightarrow> float64" where
  "fl x =
     (if overflow_bound \<le> x then PosInf
      else if x \<le> - overflow_bound then NegInf
      else Finite x)"

fun f64_neg :: "float64 \<Rightarrow> float64" where
  "f64_neg (Finite x) = Finite (- x)"
| "f64_neg PosInf = NegInf"
| "f64_neg NegInf = PosInf"
| "f64_neg NaN = NaN"

fun f64_add :: "float64 \<Rightarrow> float64 \<Rightarrow> float64" where
  "f64_add (Finite x) (Finite y) = fl (x + y)"
| "f64_add NaN _ = NaN"
| "f64_add _ NaN = NaN"
| "f64_add PosInf NegInf = NaN"
| "f64_add NegInf PosInf = NaN"
| "f64_add PosInf _ = PosInf"
| "f64_add _ PosInf = PosInf"
| "f64_add NegInf _ = NegInf"
| "f64_add _ NegInf = NegInf"

definition f64_sub :: "float64 \<Rightarrow> float64 \<Rightarrow> float64" where
  "f64_sub a b = f64_add a (f64_neg b)"

fun f64_mul :: "float64 \<Rightarrow> float64 \<Rightarrow> float64" where
  "f64_mul (Finite x) (Finite y) = fl (x * y)"
| "f64_mul NaN _ = NaN"
| "f64_mul _ NaN = NaN"
| "f64_mul (Finite x) PosInf = (if x = 0 then NaN else if 0 < x then PosInf else NegInf)"
| "f64_mul (Finite x) NegInf = (if x = 0 then NaN else if 0 < x then NegInf else PosInf)"
| "f64_mul PosInf (Finite y) = (if y = 0 then NaN else if 0 < y then PosInf else NegInf)"
| "f64_mul NegInf (Finite y) = (if y = 0 then NaN else if 0 < y then NegInf else PosInf)"
| "f64_mul PosInf PosInf = PosInf"
| "f64_mul PosInf NegInf = NegInf"
| "f64_mul NegInf PosInf = NegInf"
| "f64_mul NegInf NegInf = PosInf"

fun f64_div :: "float64 \<Rightarrow> float64 \<Rightarrow> float64" where
  "f64_div (Finite x) (Finite y) =
     (if y = 0 then (if x = 0 then NaN else if 0 < x then PosInf else NegInf)
      else fl (x / y))"
| "f64_div NaN _ = NaN"
| "f64_div _ NaN = NaN"
| "f64_div (Finite x) _ = Finite 0"
| "f64_div PosInf (Finite y) = (if 0 \<le> y then PosInf else NegInf)"
| "f64_div NegInf (Finite y) = (if 0 \<le> y then NegInf else PosInf)"
| "f64_div _ _ = NaN"

text \<open>The comparisons \<open>>\<close>, \<open><=\<close> and \<open>>=\<close>: every comparison with NaN is false.\<close>

fun f64_gt :: "float64 \<Rightarrow> float64 \<Rightarrow> bool" where
  "f64_gt (Finite x) (Finite y) = (y < x)"
| "f64_gt (Finite x) NegInf = True"
| "f64_gt PosInf (Finite y) = True"
| "f64_gt PosInf NegInf = True"
| "f64_gt _ _ = False"

fun f64_le :: "float64 \<Rightarrow> float64 \<Rightarrow> bool" where
  "f64_le (Finite x) (Finite y) = (x \<le> y)"
| "f64_le NaN _ = False"
| "f64_le _ NaN = False"
| "f64_le NegInf _ = True"
| "f64_le _ PosInf = True"
| "f64_le _ _ = False"

definition f64_ge :: "float64 \<Rightarrow> float64 \<Rightarrow> bool" where
  "f64_ge a b = f64_le b a"

text \<open>The functions of package \<open>math\<close> that the evaluator calls, with their special cases.\<close>

fun math_Sin :: "float64 \<Rightarrow> float64" where
  "math_Sin (Finite x) = Finite (sin x)"
| "math_Sin _ = NaN"

fun math_Cos :: "float64 \<Rightarrow> float64" where
  "math_Cos (Finite x) = Finite (cos x)"
| "math_Cos _ = NaN"

fun math_Sqrt :: "float64 \<Rightarrow> float64" where
  "math_Sqrt (Finite x) = (if x < 0 then NaN else Finite (sqrt x))"
| "math_Sqrt PosInf = PosInf"
| "math_Sqrt _ = NaN"

definition atan2 :: "real \<Rightarrow> real \<Rightarrow> real" where
  "atan2 y x =
     (if 0 < x then arctan (y / x)
      else if x < 0 then (if 0 \<le> y then arctan (y / x) + pi else arctan (y / x) - pi)
      else if 0 < y then pi / 2
      else if y < 0 then - (pi / 2)
      else 0)"

fun math_Atan2 :: "float64 \<Rightarrow> float64 \<Rightarrow> float64" where
  "math_Atan2 (Finite y) (Finite x) = Finite (atan2 y x)"
| "math_Atan2 NaN _ = NaN"
| "math_Atan2 _ NaN = NaN"
| "math_Atan2 PosInf PosInf = Finite (pi / 4)"
| "math_Atan2 NegInf PosInf = Finite (- (pi / 4))"
| "math_Atan2 PosInf NegInf = Finite (3 * pi / 4)"
| "math_Atan2 NegInf NegInf = Finite (- (3 * pi / 4))"
| "math_Atan2 (Finite y) PosInf = Finite 0"
| "math_Atan2 (Finite y) NegInf = (if y < 0 then Finite (- pi) else Finite pi)"
| "math_Atan2 PosInf (Finite x) = Finite (pi / 2)"
| "math_Atan2 NegInf (Finite x) = Finite (- (pi / 2))"

section \<open>Data model (package models)\<close>

text \<open>
  \<open>int64\<close> is a 64-bit two's complement word: \<open>+\<close>, \<open>-\<close> and \<open>*\<close> wrap, comparisons read
  it with \<open>sint\<close>. Go's platform-sized \<open>int\<close> (step orders) is an unbounded \<open>int\<close>.
  \<open>time.Time\<close> is a point on an integer time line whose unit is the millisecond of the
  datastore's date type.
\<close>

type_synonym int64 = "64 word"
type_synonym time = int

record Player =
  p_ID :: string
  p_DisplayName :: string
  p_Gold :: int64
  p_CreatedAt :: time
  p_UpdatedAt :: time
  p_Email :: string
  p_PasswordHash :: string
  p_Role :: string

record InventoryEntry =
  ie_ID :: string
  ie_PlayerID :: string
  ie_ItemID :: string
  ie_Qty :: int64
  ie_UpdatedAt :: time

datatype ListingStatus =
  ListingStatusActive | ListingStatusSold | ListingStatusCancelled | ListingStatusExpired

record Listing =
  l_ID :: string
  l_SellerID :: string
  l_BuyerID :: string
  l_ItemID :: string
  l_Qty :: int64
  l_PricePerUnit :: int64
  l_Status :: ListingStatus
  l_CreatedAt :: time
  l_ExpiresAt :: "time option"

record Trade =
  t_ID :: string
  t_BuyerID :: string
  t_SellerID :: string
  t_ListingID :: string
  t_ItemID :: string
  t_Qty :: int64
  t_TotalPrice :: int64
  t_CreatedAt :: time

record BuyListingRequest =
  blr_Qty :: int64

record BossLocation =
  loc_Lat :: float64
  loc_Lon :: float64
  loc_RadiusMeters :: float64

record RewardItem =
  ri_ItemID :: string
  ri_Qty :: int64

record Rewards =
  rw_Gold :: int64
  rw_Items :: "RewardItem list"

record BossStep =
  bs_ID :: string
  bs_DungeonID :: string
  bs_Order :: int
  bs_Name :: string
  bs_Location :: BossLocation
  bs_ZoneDescription :: string
  bs_Difficulty :: int
  bs_Rewards :: Rewards
  bs_CreatedAt :: time
  bs_UpdatedAt :: time

datatype RunState = RunStateActive | RunStateCompleted | RunStateAbandoned

record KilledStep =
  ks_BossStepID :: string
  ks_KilledAt :: time
  ks_AttemptID :: string

record Run =
  r_ID :: string
  r_DungeonID :: string
  r_PlayerID :: string
  r_State :: RunState
  r_CurrentStep :: int
  r_KilledSteps :: "KilledStep list"
  r_StartedAt :: time
  r_EndedAt :: "time option"
  r_UpdatedAt :: time

record AttemptRequest =
  req_Lat :: "float64 option"
  req_Lon :: "float64 option"
  req_DeviceTime :: string
  req_GPSAccuracyM :: "float64 option"
  req_IdempotencyKey :: string

text \<open>The \<open>Proof\<close> field of the response is never assigned by the service and is left out.\<close>

record AttemptResponse =
  ar_RunID :: string
  ar_StepID :: string
  ar_DistanceM :: float64
  ar_Rewards :: Rewards
  ar_Run :: Run
  ar_Player :: Player
  ar_Idempotency :: bool

text \<open>
  The stored response is \<open>any\<close>: \<open>nil\<close> while the record is pending, afterwards the
  document that the driver wrote for the response of the settlement.
\<close>

record AttemptRecord =
  rec_ID :: string
  rec_RunID :: string
  rec_StepID :: string
  rec_PlayerID :: string
  rec_IdempotencyKey :: string
  rec_RewardApplied :: bool
  rec_Response :: "AttemptResponse option"
  rec_CreatedAt :: time

section \<open>The datastore\<close>

text \<open>
  One list of documents per collection. \<open>FindOne\<close> returns the first document that
  matches the filter, \<open>UpdateOne\<close>, \<open>FindOneAndUpdate\<close> and \<open>FindOneAndReplace\<close> change the
  first document that matches. The driver is taken to be reliable: an operation fails
  only where the data makes it fail (no document matches, a unique index is violated).
\<close>

record db =
  players :: "Player list"
  inventory :: "InventoryEntry list"
  listings :: "Listing list"
  trades :: "Trade list"
  steps :: "BossStep list"
  runs :: "Run list"
  attempts :: "AttemptRecord list"

fun update_one :: "('a \<Rightarrow> bool) \<Rightarrow> ('a \<Rightarrow> 'a) \<Rightarrow> 'a list \<Rightarrow> 'a list" where
  "update_one P f [] = []"
| "update_one P f (x # xs) = (if P x then f x # xs else x # update_one P f xs)"

text \<open>
  \<open>mongodb.WithTransaction\<close>: the body runs on the datastore; when it returns an error
  the transaction is aborted and every write of the body is dropped, otherwise it is
  committed.
\<close>

definition WithTransaction ::
  "(db \<Rightarrow> (app_error + 'a) \<times> db) \<Rightarrow> db \<Rightarrow> (app_error + 'a) \<times> db" where
  "WithTransaction fn d =
     (case fn d of
        (Inl e, _) \<Rightarrow> (Inl (wrap ''transaction body'' e), d)
      | (Inr v, d') \<Rightarrow> (Inr v, d'))"

subsection \<open>Player repository\<close>

definition players_GetByID :: "string \<Rightarrow> db \<Rightarrow> app_error + Player" where
  "players_GetByID pid d =
     (case find (\<lambda>p. p_ID p = pid) (players d) of
        None \<Rightarrow> Inl (Err [''player id %s''] ErrNotFound)
      | Some p \<Rightarrow> Inr p)"

definition players_IncrementGold ::
  "string \<Rightarrow> int64 \<Rightarrow> time \<Rightarrow> db \<Rightarrow> (app_error + Player) \<times> db" where
  "players_IncrementGold pid delta updatedAt d =
     (case find (\<lambda>p. p_ID p = pid) (players d) of
        None \<Rightarrow> (Inl (Err [''player id %s''] ErrNotFound), d)
      | Some p \<Rightarrow>
          (Inr (p\<lparr>p_Gold := p_Gold p + delta, p_UpdatedAt := updatedAt\<rparr>),
           d\<lparr>players := update_one (\<lambda>p. p_ID p = pid)
                (\<lambda>p. p\<lparr>p_Gold := p_Gold p + delta, p_UpdatedAt := updatedAt\<rparr>) (players d)\<rparr>))"

definition players_SetGold ::
  "string \<Rightarrow> int64 \<Rightarrow> time \<Rightarrow> db \<Rightarrow> (app_error + Player) \<times> db" where
  "players_SetGold pid gold updatedAt d =
     (case find (\<lambda>p. p_ID p = pid) (players d) of
        None \<Rightarrow> (Inl (Err [''player id %s''] ErrNotFound), d)
      | Some p \<Rightarrow>
          (Inr (p\<lparr>p_Gold := gold, p_UpdatedAt := updatedAt\<rparr>),
           d\<lparr>players := update_one (\<lambda>p. p_ID p = pid)
                (\<lambda>p. p\<lparr>p_Gold := gold, p_UpdatedAt := updatedAt\<rparr>) (players d)\<rparr>))"

subsection \<open>Inventory repository\<close>

text \<open>
  \<open>AddItem\<close> is an upsert on (playerId, itemId): it increments the quantity of the
  entry, or inserts one with \<open>_id = playerID + ":" + itemID\<close>; the insert fails when
  another entry already has that \<open>_id\<close>.
\<close>

definition inventory_AddItem ::
  "string \<Rightarrow> string \<Rightarrow> int64 \<Rightarrow> time \<Rightarrow> db \<Rightarrow> (app_error + unit) \<times> db" where
  "inventory_AddItem playerID itemID qty updatedAt d =
     (if sint qty \<le> 0 then (Inl (Err [''qty must be positive''] ErrValidation), d)
      else
        (case find (\<lambda>e. ie_PlayerID e = playerID \<and> ie_ItemID e = itemID) (inventory d) of
           Some _ \<Rightarrow>
             (Inr (),
              d\<lparr>inventory := update_one (\<lambda>e. ie_PlayerID e = playerID \<and> ie_ItemID e = itemID)
                   (\<lambda>e. e\<lparr>ie_Qty := ie_Qty e + qty, ie_UpdatedAt := updatedAt\<rparr>) (inventory d)\<rparr>)
         | None \<Rightarrow>
             (if \<exists>e \<in> set (inventory d). ie_ID e = playerID @ '':'' @ itemID
              then (Inl (Err [''add inventory item''] ErrDriver), d)
              else
                (Inr (),
                 d\<lparr>inventory := inventory d @
                      [\<lparr>ie_ID = playerID @ '':'' @ itemID, ie_PlayerID = playerID,
                        ie_ItemID = itemID, ie_Qty = qty, ie_UpdatedAt = updatedAt\<rparr>]\<rparr>))))"

subsection \<open>Auction repository\<close>

definition auction_GetByID :: "string \<Rightarrow> db \<Rightarrow> app_error + Listing" where
  "auction_GetByID lid d =
     (case find (\<lambda>l. l_ID l = lid) (listings d) of
        None \<Rightarrow> Inl (Err [''listing id %s''] ErrNotFound)
      | Some l \<Rightarrow> Inr l)"

definition auction_ReplaceListing :: "Listing \<Rightarrow> db \<Rightarrow> (app_error + Listing) \<times> db" where
  "auction_ReplaceListing listing d =
     (case find (\<lambda>l. l_ID l = l_ID listing) (listings d) of
        None \<Rightarrow> (Inl (Err [''listing id %s''] ErrNotFound), d)
      | Some _ \<Rightarrow>
          (Inr listing,
           d\<lparr>listings := update_one (\<lambda>l. l_ID l = l_ID listing) (\<lambda>_. listing) (listings d)\<rparr>))"

definition auction_InsertTrade :: "Trade \<Rightarrow> db \<Rightarrow> (app_error + unit) \<times> db" where
  "auction_InsertTrade trade d =
     (if \<exists>t \<in> set (trades d). t_ID t = t_ID trade
      then (Inl (Err [''insert trade''] ErrDriver), d)
      else (Inr (), d\<lparr>trades := trades d @ [trade]\<rparr>))"

section \<open>Auction service\<close>

text \<open>Struct tag \<open>validate:"required,min=1"\<close> on the signed quantity.\<close>

definition validate_BuyListingRequest :: "BuyListingRequest \<Rightarrow> bool" where
  "validate_BuyListingRequest req = (1 \<le> sint (blr_Qty req))"

text \<open>
  The body of the transaction of \<open>Buy\<close>. \<open>tradeID\<close> is the value that
  \<open>functions.NewUUID()\<close> returns, \<open>now\<close> the clock reading taken before the transaction.
\<close>

definition Buy_tx ::
  "time \<Rightarrow> string \<Rightarrow> string \<Rightarrow> Listing \<Rightarrow> BuyListingRequest \<Rightarrow> int64 \<Rightarrow> db
     \<Rightarrow> (app_error + Listing) \<times> db" where
  "Buy_tx now tradeID buyerID listing req totalPrice d =
     (case players_GetByID buyerID d of
        Inl e \<Rightarrow> (Inl (wrap ''load buyer'' e), d)
      | Inr buyer \<Rightarrow>
     if sint (p_Gold buyer) < sint totalPrice
     then (Inl (Err [''insufficient funds''] ErrInsufficient), d)
     else
     (case players_SetGold buyerID (p_Gold buyer - totalPrice) now d of
        (Inl e, d1) \<Rightarrow> (Inl (wrap ''debit buyer wallet'' e), d1)
      | (Inr _, d1) \<Rightarrow>
     (case players_IncrementGold (l_SellerID listing) totalPrice now d1 of
        (Inl e, d2) \<Rightarrow> (Inl (wrap ''credit seller wallet'' e), d2)
      | (Inr _, d2) \<Rightarrow>
     (case inventory_AddItem buyerID (l_ItemID listing) (blr_Qty req) now d2 of
        (Inl e, d3) \<Rightarrow> (Inl (wrap ''transfer item to buyer inventory'' e), d3)
      | (Inr _, d3) \<Rightarrow>
     (let listing' =
            (if blr_Qty req = l_Qty listing
             then listing\<lparr>l_Status := ListingStatusSold, l_BuyerID := buyerID, l_Qty := 0\<rparr>
             else listing\<lparr>l_Qty := l_Qty listing - blr_Qty req\<rparr>)
      in
     (case auction_ReplaceListing listing' d3 of
        (Inl e, d4) \<Rightarrow> (Inl (wrap ''update listing status after buy'' e), d4)
      | (Inr out, d4) \<Rightarrow>
     (case auction_InsertTrade
             \<lparr>t_ID = tradeID, t_BuyerID = buyerID, t_SellerID = l_SellerID listing',
              t_ListingID = l_ID listing', t_ItemID = l_ItemID listing',
              t_Qty = blr_Qty req, t_TotalPrice = totalPrice, t_CreatedAt = now\<rparr> d4 of
        (Inl e, d5) \<Rightarrow> (Inl (wrap ''insert trade'' e), d5)
      | (Inr _, d5) \<Rightarrow> (Inr out, d5))))))))"

text \<open>
  \<open>Service.Buy\<close>. The clock is read twice: \<open>t_check\<close> for the expiry test, \<open>now\<close> for
  the settlement.
\<close>

definition Buy ::
  "time \<Rightarrow> time \<Rightarrow> string \<Rightarrow> string \<Rightarrow> string \<Rightarrow> BuyListingRequest \<Rightarrow> db
     \<Rightarrow> (app_error + Listing) \<times> db" where
  "Buy t_check now tradeID buyerID listingID req d =
     (if \<not> validate_BuyListingRequest req
      then (Inl (Err [''validate buy listing''] ErrValidation), d)
      else
     (case auction_GetByID listingID d of
        Inl e \<Rightarrow> (Inl (wrap ''load listing'' e), d)
      | Inr listing \<Rightarrow>
     if l_Status listing \<noteq> ListingStatusActive
     then (Inl (Err [''listing is not active''] ErrConflict), d)
     else if l_SellerID listing = buyerID
     then (Inl (Err [''seller cannot buy own listing''] ErrConflict), d)
     else if sint (blr_Qty req) > sint (l_Qty listing)
     then (Inl (Err [''requested qty exceeds listing qty''] ErrConflict), d)
     else if (case l_ExpiresAt listing of None \<Rightarrow> False | Some t \<Rightarrow> t < t_check)
     then (Inl (Err [''listing expired''] ErrConflict), d)
     else
     (case WithTransaction
             (Buy_tx now tradeID buyerID listing req (blr_Qty req * l_PricePerUnit listing)) d of
        (Inl e, d') \<Rightarrow> (Inl (wrap ''transaction buy listing'' e), d')
      | (Inr out, d') \<Rightarrow> (Inr out, d'))))"

section \<open>Geofence evaluator (package geo)\<close>

definition earthRadiusMeters :: float64 where
  "earthRadiusMeters = Finite 6371000"

text \<open>\<open>math.Pi / 180\<close> is a constant expression, evaluated exactly at compile time.\<close>

definition toRadians :: "float64 \<Rightarrow> float64" where
  "toRadians v = f64_mul v (Finite (pi / 180))"

definition HaversineMeters :: "float64 \<Rightarrow> float64 \<Rightarrow> float64 \<Rightarrow> float64 \<Rightarrow> float64" where
  "HaversineMeters lat1 lon1 lat2 lon2 =
     (let dLat = toRadians (f64_sub lat2 lat1);
          dLon = toRadians (f64_sub lon2 lon1);
          lat1R = toRadians lat1;
          lat2R = toRadians lat2;
          a = f64_add
                (f64_mul (math_Sin (f64_div dLat (Finite 2))) (math_Sin (f64_div dLat (Finite 2))))
                (f64_mul
                   (f64_mul (f64_mul (math_Cos lat1R) (math_Cos lat2R))
                      (math_Sin (f64_div dLon (Finite 2))))
                   (math_Sin (f64_div dLon (Finite 2))));
          c = f64_mul (Finite 2) (math_Atan2 (math_Sqrt a) (math_Sqrt (f64_sub (Finite 1) a)))
      in f64_mul earthRadiusMeters c)"

section \<open>Run and dungeon repositories\<close>

definition runs_GetRunByID :: "string \<Rightarrow> db \<Rightarrow> app_error + Run" where
  "runs_GetRunByID rid d =
     (case find (\<lambda>r. r_ID r = rid) (runs d) of
        None \<Rightarrow> Inl (Err [''run id %s''] ErrNotFound)
      | Some r \<Rightarrow> Inr r)"

definition runs_ReplaceRun :: "Run \<Rightarrow> db \<Rightarrow> (app_error + Run) \<times> db" where
  "runs_ReplaceRun run d =
     (case find (\<lambda>r. r_ID r = r_ID run) (runs d) of
        None \<Rightarrow> (Inl (Err [''run id %s''] ErrNotFound), d)
      | Some _ \<Rightarrow>
          (Inr run, d\<lparr>runs := update_one (\<lambda>r. r_ID r = r_ID run) (\<lambda>_. run) (runs d)\<rparr>))"

text \<open>
  The attempts collection has the unique index (runId, stepId) besides the one on
  \<open>_id\<close>; a duplicate key on insert is returned as \<open>ErrAlreadyHandled\<close>.
\<close>

definition runs_CreateAttemptRecord :: "AttemptRecord \<Rightarrow> db \<Rightarrow> (app_error + unit) \<times> db" where
  "runs_CreateAttemptRecord record d =
     (if \<exists>x \<in> set (attempts d).
           rec_ID x = rec_ID record
           \<or> (rec_RunID x = rec_RunID record \<and> rec_StepID x = rec_StepID record)
      then (Inl (Err [''duplicate attempt key''] ErrAlreadyHandled), d)
      else (Inr (), d\<lparr>attempts := attempts d @ [record]\<rparr>))"

definition runs_GetAttemptRecord :: "string \<Rightarrow> string \<Rightarrow> db \<Rightarrow> app_error + AttemptRecord" where
  "runs_GetAttemptRecord runID stepID d =
     (case find (\<lambda>x. rec_RunID x = runID \<and> rec_StepID x = stepID) (attempts d) of
        None \<Rightarrow> Inl (Err [''attempt record missing''] ErrNotFound)
      | Some x \<Rightarrow> Inr x)"

definition runs_UpdateAttemptRecord ::
  "string \<Rightarrow> AttemptResponse \<Rightarrow> bool \<Rightarrow> db \<Rightarrow> (app_error + unit) \<times> db" where
  "runs_UpdateAttemptRecord aid response rewardApplied d =
     (case find (\<lambda>x. rec_ID x = aid) (attempts d) of
        None \<Rightarrow> (Inl (Err [''attempt record %s missing''] ErrNotFound), d)
      | Some _ \<Rightarrow>
          (Inr (),
           d\<lparr>attempts := update_one (\<lambda>x. rec_ID x = aid)
                (\<lambda>x. x\<lparr>rec_Response := Some response, rec_RewardApplied := rewardApplied\<rparr>)
                (attempts d)\<rparr>))"

definition dungeons_GetStep :: "string \<Rightarrow> string \<Rightarrow> db \<Rightarrow> app_error + BossStep" where
  "dungeons_GetStep dungeonID stepID d =
     (case find (\<lambda>s. bs_ID s = stepID \<and> bs_DungeonID s = dungeonID) (steps d) of
        None \<Rightarrow> Inl (Err [''step id %s''] ErrNotFound)
      | Some s \<Rightarrow> Inr s)"

definition dungeons_ListStepsByDungeon :: "string \<Rightarrow> db \<Rightarrow> BossStep list" where
  "dungeons_ListStepsByDungeon dungeonID d =
     sort_key bs_Order (filter (\<lambda>s. bs_DungeonID s = dungeonID) (steps d))"

section \<open>Run service\<close>

text \<open>
  Struct tags of \<open>AttemptRequest\<close>: \<open>Lat\<close> and \<open>Lon\<close> required (non-nil),
  \<open>DeviceTime\<close> \<open>omitempty,max=64\<close>, \<open>GPSAccuracyM\<close> \<open>omitempty,gte=0\<close>,
  \<open>IdempotencyKey\<close> \<open>required,min=8,max=128\<close>.
\<close>

definition validate_AttemptRequest :: "AttemptRequest \<Rightarrow> bool" where
  "validate_AttemptRequest req =
     (req_Lat req \<noteq> None \<and> req_Lon req \<noteq> None
      \<and> length (req_DeviceTime req) \<le> 64
      \<and> (case req_GPSAccuracyM req of None \<Rightarrow> True | Some g \<Rightarrow> f64_ge g (Finite 0))
      \<and> 8 \<le> length (req_IdempotencyKey req) \<and> length (req_IdempotencyKey req) \<le> 128)"

text \<open>The zero values that \<open>var response models.AttemptResponse\<close> starts from.\<close>

definition zero_AttemptResponse :: AttemptResponse where
  "zero_AttemptResponse =
     \<lparr>ar_RunID = [], ar_StepID = [], ar_DistanceM = Finite 0,
      ar_Rewards = \<lparr>rw_Gold = 0, rw_Items = []\<rparr>,
      ar_Run = \<lparr>r_ID = [], r_DungeonID = [], r_PlayerID = [], r_State = RunStateActive,
                r_CurrentStep = 0, r_KilledSteps = [], r_StartedAt = 0, r_EndedAt = None,
                r_UpdatedAt = 0\<rparr>,
      ar_Player = \<lparr>p_ID = [], p_DisplayName = [], p_Gold = 0, p_CreatedAt = 0,
                   p_UpdatedAt = 0, p_Email = [], p_PasswordHash = [], p_Role = []\<rparr>,
      ar_Idempotency = False\<rparr>"

text \<open>
  \<open>decodeAttemptResponse\<close> marshals the stored value to JSON and unmarshals it into a
  response. The stored value is the document that the datastore driver wrote, whose keys
  are the \<open>bson\<close> names of the fields (the lower-cased field name where a struct has no
  \<open>bson\<close> tag), and \<open>json.Unmarshal\<close> fills the fields whose \<open>json\<close> name matches a key,
  letter case aside. \<open>read_back\<close> is what a stored response comes back as:

    \<^item> \<open>DistanceM\<close> is stored as \<open>distancem\<close> and read as \<open>distanceMeters\<close>: it stays zero;
    \<^item> \<open>Idempotency\<close> is stored as \<open>idempotency\<close> and read as \<open>idempotentReplay\<close>: it
      stays false;
    \<^item> \<open>Run.ID\<close> is stored as \<open>_id\<close> and read as \<open>id\<close>, \<open>Player.ID\<close> is stored as
      \<open>customID\<close> and read as \<open>id\<close>: both stay empty;
    \<^item> \<open>Player.PasswordHash\<close> has the tag \<open>json:"-"\<close> and is never read;
    \<^item> every other field has the same name on both sides and comes back as it was.

  \<open>json.Marshal\<close> fails on a stored distance that is NaN or an infinity, which JSON
  cannot write. A \<open>nil\<close> payload marshals to \<open>null\<close>, which leaves the zero response
  untouched.
\<close>

definition read_back :: "AttemptResponse \<Rightarrow> AttemptResponse" where
  "read_back r =
     r\<lparr>ar_DistanceM := Finite 0,
       ar_Run := (ar_Run r)\<lparr>r_ID := []\<rparr>,
       ar_Player := (ar_Player r)\<lparr>p_ID := [], p_PasswordHash := []\<rparr>,
       ar_Idempotency := False\<rparr>"

definition decodeAttemptResponse :: "AttemptResponse option \<Rightarrow> app_error + AttemptResponse" where
  "decodeAttemptResponse raw =
     (case raw of
        None \<Rightarrow> Inr zero_AttemptResponse
      | Some r \<Rightarrow>
          (case ar_DistanceM r of
             Finite _ \<Rightarrow> Inr (read_back r)
           | _ \<Rightarrow> Inl (Err [''marshal stored response''] ErrJSON)))"

text \<open>The loop over \<open>step.Rewards.Items\<close> inside the transaction.\<close>

fun apply_reward_items ::
  "string \<Rightarrow> RewardItem list \<Rightarrow> time \<Rightarrow> db \<Rightarrow> (app_error + unit) \<times> db" where
  "apply_reward_items playerID [] now d = (Inr (), d)"
| "apply_reward_items playerID (item # items) now d =
     (case inventory_AddItem playerID (ri_ItemID item) (ri_Qty item) now d of
        (Inl e, d') \<Rightarrow> (Inl (wrap ''apply inventory reward item %s'' e), d')
      | (Inr _, d') \<Rightarrow> apply_reward_items playerID items now d')"

text \<open>The body of the transaction of \<open>Attempt\<close> (steps 5a to 5f of the settlement).\<close>

definition Attempt_tx ::
  "time \<Rightarrow> AttemptRecord \<Rightarrow> string \<Rightarrow> string \<Rightarrow> string \<Rightarrow> BossStep \<Rightarrow> Run \<Rightarrow> BossStep list
     \<Rightarrow> float64 \<Rightarrow> db \<Rightarrow> (app_error + AttemptResponse) \<times> db" where
  "Attempt_tx now record playerID runID stepID step run stepList distance d =
     (case runs_CreateAttemptRecord record d of
        (Inl e, d1) \<Rightarrow> (Inl (wrap ''create attempt idempotency record'' e), d1)
      | (Inr _, d1) \<Rightarrow>
     (case players_IncrementGold playerID (rw_Gold (bs_Rewards step)) now d1 of
        (Inl e, d2) \<Rightarrow> (Inl (wrap ''apply gold reward'' e), d2)
      | (Inr updatedPlayer, d2) \<Rightarrow>
     (case apply_reward_items playerID (rw_Items (bs_Rewards step)) now d2 of
        (Inl e, d3) \<Rightarrow> (Inl e, d3)
      | (Inr _, d3) \<Rightarrow>
     (let run1 = run\<lparr>r_KilledSteps := r_KilledSteps run @
                       [\<lparr>ks_BossStepID = stepID, ks_KilledAt = now,
                         ks_AttemptID = rec_ID record\<rparr>],
                     r_CurrentStep := r_CurrentStep run + 1\<rparr>;
          run2 = (if r_CurrentStep run1 > int (length stepList)
                  then run1\<lparr>r_State := RunStateCompleted, r_EndedAt := Some now\<rparr>
                  else run1);
          run3 = run2\<lparr>r_UpdatedAt := now\<rparr>
      in
     (case runs_ReplaceRun run3 d3 of
        (Inl e, d4) \<Rightarrow> (Inl (wrap ''update run progression'' e), d4)
      | (Inr updatedRun, d4) \<Rightarrow>
     (let response =
            \<lparr>ar_RunID = runID, ar_StepID = stepID, ar_DistanceM = distance,
             ar_Rewards = bs_Rewards step, ar_Run = updatedRun, ar_Player = updatedPlayer,
             ar_Idempotency = False\<rparr>
      in
     (case runs_UpdateAttemptRecord (rec_ID record) response True d4 of
        (Inl e, d5) \<Rightarrow> (Inl (wrap ''persist attempt replay response'' e), d5)
      | (Inr _, d5) \<Rightarrow> (Inr response, d5))))))))"

text \<open>
  \<open>Service.Attempt\<close>. \<open>now\<close> is the clock reading and \<open>recordID\<close> the value of
  \<open>functions.NewUUID()\<close> for the new record. The service holds no lock between its
  look-up of the attempt record and its transaction: \<open>others\<close> is what other requests
  commit to the datastore in between (\<open>id\<close> when the request runs alone). The pointers
  \<open>req.Lat\<close> and \<open>req.Lon\<close> are dereferenced after validation has found them non-nil.
\<close>

definition Attempt ::
  "(db \<Rightarrow> db) \<Rightarrow> time \<Rightarrow> string \<Rightarrow> string \<Rightarrow> string \<Rightarrow> string \<Rightarrow> AttemptRequest \<Rightarrow> db
     \<Rightarrow> (app_error + AttemptResponse) \<times> db" where
  "Attempt others now recordID playerID runID stepID req d =
     (if \<not> validate_AttemptRequest req
      then (Inl (Err [''validate attempt request''] ErrValidation), d)
      else
     (case runs_GetRunByID runID d of
        Inl e \<Rightarrow> (Inl (wrap ''load run'' e), d)
      | Inr run \<Rightarrow>
     if r_PlayerID run \<noteq> playerID
     then (Inl (Err [''run owner mismatch''] ErrForbidden), d)
     else if r_State run \<noteq> RunStateActive
     then (Inl (Err [''run is not active''] ErrConflict), d)
     else
     (case dungeons_GetStep (r_DungeonID run) stepID d of
        Inl e \<Rightarrow> (Inl (wrap ''load step'' e), d)
      | Inr step \<Rightarrow>
     if bs_Order step \<noteq> r_CurrentStep run
     then (Inl (Err [''expected step order %d got %d''] ErrWrongStepOrder), d)
     else
     (let distance = HaversineMeters (the (req_Lat req)) (the (req_Lon req))
                       (loc_Lat (bs_Location step)) (loc_Lon (bs_Location step))
      in
     if f64_gt distance (loc_RadiusMeters (bs_Location step))
     then (Inl (Err [''distance %.2f exceeds %.2f''] ErrNotInRange), d)
     else
     (case runs_GetAttemptRecord runID stepID d of
        Inr existing \<Rightarrow>
          if rec_IdempotencyKey existing \<noteq> []
             \<and> rec_IdempotencyKey existing \<noteq> req_IdempotencyKey req
          then (Inl (Err [''attempt already handled with another idempotency key'']
                       ErrAlreadyHandled), d)
          else if \<not> rec_RewardApplied existing
          then (Inl (Err [''attempt already in progress''] ErrAlreadyHandled), d)
          else
            (case decodeAttemptResponse (rec_Response existing) of
               Inl convErr \<Rightarrow> (Inl (wrap ''decode cached attempt response'' convErr), d)
             | Inr resp \<Rightarrow> (Inr (resp\<lparr>ar_Idempotency := True\<rparr>), d))
      | Inl err \<Rightarrow>
          if \<not> errors_Is err ErrNotFound
          then (Inl (wrap ''check attempt replay state'' err), d)
          else
     (let stepList = dungeons_ListStepsByDungeon (r_DungeonID run) d;
          record = \<lparr>rec_ID = recordID, rec_RunID = runID, rec_StepID = stepID,
                    rec_PlayerID = playerID, rec_IdempotencyKey = req_IdempotencyKey req,
                    rec_RewardApplied = False, rec_Response = None, rec_CreatedAt = now\<rparr>
      in
     (case WithTransaction
             (Attempt_tx now record playerID runID stepID step run stepList distance)
             (others d) of
        (Inr response, d') \<Rightarrow> (Inr response, d')
      | (Inl txErr, d') \<Rightarrow>
          if errors_Is txErr ErrAlreadyHandled
          then
            (case runs_GetAttemptRecord runID stepID d' of
               Inl e \<Rightarrow> (Inl (wrap ''load existing attempt after duplicate key'' e), d')
             | Inr found \<Rightarrow>
                 if rec_IdempotencyKey found \<noteq> []
                    \<and> rec_IdempotencyKey found \<noteq> req_IdempotencyKey req
                 then (Inl (Err [''attempt already handled with another idempotency key'']
                              ErrAlreadyHandled), d')
                 else
                   (case decodeAttemptResponse (rec_Response found) of
                      Inl convErr \<Rightarrow>
                        (Inl (wrap ''decode existing attempt response'' convErr), d')
                    | Inr resp \<Rightarrow> (Inr (resp\<lparr>ar_Idempotency := True\<rparr>), d')))
          else (Inl (wrap ''attempt transaction'' txErr), d'))))))))"

section \<open>Auxiliary definitions for the statements\<close>

text \<open>
  The haversine formula in its textbook form, for two points given by latitude and
  longitude in radians on a sphere of radius 6371000 metres. It follows the wording of
  the specification, not the code, and is compared with \<open>HaversineMeters\<close> below.
\<close>

definition haversine_formula :: "real \<Rightarrow> real \<Rightarrow> real \<Rightarrow> real \<Rightarrow> real" where
  "haversine_formula p1 l1 p2 l2 =
     2 * 6371000 * arcsin (sqrt ((sin ((p2 - p1) / 2))\<^sup>2
                                + cos p1 * cos p2 * (sin ((l2 - l1) / 2))\<^sup>2))"

text \<open>The error value of the rejection for a different idempotency key.\<close>

definition key_mismatch :: app_error where
  "key_mismatch = Err [''attempt already handled with another idempotency key''] ErrAlreadyHandled"

text \<open>
  The run that a settlement writes back (the assignments to \<open>run\<close> inside the
  transaction), for a dungeon of \<open>n\<close> steps.
\<close>

definition settle :: "Run \<Rightarrow> string \<Rightarrow> time \<Rightarrow> string \<Rightarrow> nat \<Rightarrow> Run" where
  "settle run stepID now recordID n =
     (let run1 = run\<lparr>r_KilledSteps := r_KilledSteps run @
                       [\<lparr>ks_BossStepID = stepID, ks_KilledAt = now,
                         ks_AttemptID = recordID\<rparr>],
                     r_CurrentStep := r_CurrentStep run + 1\<rparr>;
          run2 = (if r_CurrentStep run1 > int n
                  then run1\<lparr>r_State := RunStateCompleted, r_EndedAt := Some now\<rparr>
                  else run1)
      in run2\<lparr>r_UpdatedAt := now\<rparr>)"

text \<open>
  A sequence of calls of \<open>Attempt\<close> by one player on one run, each of which has to
  settle its step (a success that is not a replay); the datastore is threaded through.
\<close>

fun attempt_each ::
  "string \<Rightarrow> string \<Rightarrow> (time \<times> string \<times> string \<times> AttemptRequest) list \<Rightarrow> db \<Rightarrow> db option" where
  "attempt_each playerID runID [] d = Some d"
| "attempt_each playerID runID ((now, recordID, stepID, req) # calls) d =
     (case Attempt id now recordID playerID runID stepID req d of
        (Inl _, _) \<Rightarrow> None
      | (Inr resp, d') \<Rightarrow>
          if ar_Idempotency resp then None else attempt_each playerID runID calls d')"

subsection \<open>Example data\<close>

definition example_listing :: Listing where
  "example_listing =
     \<lparr>l_ID = ''l1'', l_SellerID = ''seller'', l_BuyerID = [], l_ItemID = ''sword'',
      l_Qty = 3, l_PricePerUnit = 10, l_Status = ListingStatusActive, l_CreatedAt = 0,
      l_ExpiresAt = None\<rparr>"

definition example_market :: db where
  "example_market =
     \<lparr>players =
        [\<lparr>p_ID = ''buyer'', p_DisplayName = ''B'', p_Gold = 100, p_CreatedAt = 0,
          p_UpdatedAt = 0, p_Email = ''b@x'', p_PasswordHash = [], p_Role = ''player''\<rparr>,
         \<lparr>p_ID = ''seller'', p_DisplayName = ''S'', p_Gold = 5, p_CreatedAt = 0,
          p_UpdatedAt = 0, p_Email = ''s@x'', p_PasswordHash = [], p_Role = ''player''\<rparr>,
         \<lparr>p_ID = ''poor'', p_DisplayName = ''P'', p_Gold = 7, p_CreatedAt = 0,
          p_UpdatedAt = 0, p_Email = ''p@x'', p_PasswordHash = [], p_Role = ''player''\<rparr>],
      inventory = [],
      listings = [example_listing],
      trades = [], steps = [], runs = [], attempts = []\<rparr>"

text \<open>A listing of four swords at \<open>2 ^ 62\<close> gold each, and a market that offers it.\<close>

definition example_overflow_listing :: Listing where
  "example_overflow_listing =
     \<lparr>l_ID = ''l2'', l_SellerID = ''seller'', l_BuyerID = [], l_ItemID = ''sword'',
      l_Qty = 4, l_PricePerUnit = 4611686018427387904, l_Status = ListingStatusActive,
      l_CreatedAt = 0, l_ExpiresAt = None\<rparr>"

definition example_overflow_market :: db where
  "example_overflow_market = example_market\<lparr>listings := [example_overflow_listing]\<rparr>"

definition example_market_after :: db where
  "example_market_after =
     example_market
        \<lparr>players :=
          [\<lparr>p_ID = ''buyer'', p_DisplayName = ''B'', p_Gold = 80, p_CreatedAt = 0,
            p_UpdatedAt = 1, p_Email = ''b@x'', p_PasswordHash = [], p_Role = ''player''\<rparr>,
           \<lparr>p_ID = ''seller'', p_DisplayName = ''S'', p_Gold = 25, p_CreatedAt = 0,
            p_UpdatedAt = 1, p_Email = ''s@x'', p_PasswordHash = [], p_Role = ''player''\<rparr>,
           \<lparr>p_ID = ''poor'', p_DisplayName = ''P'', p_Gold = 7, p_CreatedAt = 0,
            p_UpdatedAt = 0, p_Email = ''p@x'', p_PasswordHash = [], p_Role = ''player''\<rparr>],
         inventory :=
          [\<lparr>ie_ID = ''buyer:sword'', ie_PlayerID = ''buyer'', ie_ItemID = ''sword'',
            ie_Qty = 2, ie_UpdatedAt = 1\<rparr>],
         listings :=
          [\<lparr>l_ID = ''l1'', l_SellerID = ''seller'', l_BuyerID = [], l_ItemID = ''sword'',
            l_Qty = 1, l_PricePerUnit = 10, l_Status = ListingStatusActive, l_CreatedAt = 0,
            l_ExpiresAt = None\<rparr>],
         trades :=
          [\<lparr>t_ID = ''t1'', t_BuyerID = ''buyer'', t_SellerID = ''seller'',
            t_ListingID = ''l1'', t_ItemID = ''sword'', t_Qty = 2, t_TotalPrice = 20,
            t_CreatedAt = 1\<rparr>]\<rparr>"

definition example_step1 :: BossStep where
  "example_step1 =
     \<lparr>bs_ID = ''s-1'', bs_DungeonID = ''d-1'', bs_Order = 1, bs_Name = ''Entrance'',
      bs_Location = \<lparr>loc_Lat = Finite 0, loc_Lon = Finite 0, loc_RadiusMeters = Finite 100\<rparr>,
      bs_ZoneDescription = ''zone'', bs_Difficulty = 1,
      bs_Rewards = \<lparr>rw_Gold = 50, rw_Items = [\<lparr>ri_ItemID = ''sword'', ri_Qty = 1\<rparr>]\<rparr>,
      bs_CreatedAt = 0, bs_UpdatedAt = 0\<rparr>"

definition example_step2 :: BossStep where
  "example_step2 =
     \<lparr>bs_ID = ''s-2'', bs_DungeonID = ''d-1'', bs_Order = 2, bs_Name = ''Boss'',
      bs_Location = \<lparr>loc_Lat = Finite 0, loc_Lon = Finite 0, loc_RadiusMeters = Finite 100\<rparr>,
      bs_ZoneDescription = ''zone'', bs_Difficulty = 2,
      bs_Rewards = \<lparr>rw_Gold = 70, rw_Items = []\<rparr>,
      bs_CreatedAt = 0, bs_UpdatedAt = 0\<rparr>"

definition example_player :: Player where
  "example_player =
     \<lparr>p_ID = ''p-1'', p_DisplayName = ''P'', p_Gold = 5, p_CreatedAt = 0,
      p_UpdatedAt = 0, p_Email = ''p@x'', p_PasswordHash = [], p_Role = ''player''\<rparr>"

definition example_run :: Run where
  "example_run =
     \<lparr>r_ID = ''run-1'', r_DungeonID = ''d-1'', r_PlayerID = ''p-1'',
      r_State = RunStateActive, r_CurrentStep = 1, r_KilledSteps = [],
      r_StartedAt = 0, r_EndedAt = None, r_UpdatedAt = 0\<rparr>"

definition example_world :: db where
  "example_world =
     \<lparr>players = [example_player], inventory = [], listings = [], trades = [],
      steps = [example_step1, example_step2], runs = [example_run], attempts = []\<rparr>"

definition example_request :: AttemptRequest where
  "example_request =
     \<lparr>req_Lat = Some (Finite 0), req_Lon = Some (Finite 0), req_DeviceTime = [],
      req_GPSAccuracyM = None, req_IdempotencyKey = ''idem-key-1''\<rparr>"

definition example_other_key_request :: AttemptRequest where
  "example_other_key_request = example_request\<lparr>req_IdempotencyKey := ''idem-key-2''\<rparr>"

text \<open>
  A step whose stored longitude is \<open>-math.MaxFloat64\<close> and a request whose longitude
  is \<open>math.MaxFloat64\<close>; neither the request nor the step is checked for a range of
  its coordinates.
\<close>

definition example_overflow_step :: BossStep where
  "example_overflow_step =
     example_step1\<lparr>bs_Location :=
       \<lparr>loc_Lat = Finite 0, loc_Lon = Finite (- MaxFloat64), loc_RadiusMeters = Finite 100\<rparr>\<rparr>"

definition example_overflow_world :: db where
  "example_overflow_world = example_world\<lparr>steps := [example_overflow_step, example_step2]\<rparr>"

definition example_overflow_request :: AttemptRequest where
  "example_overflow_request = example_request\<lparr>req_Lon := Some (Finite MaxFloat64)\<rparr>"

definition example_stored_response :: AttemptResponse where
  "example_stored_response =
     \<lparr>ar_RunID = ''run-1'', ar_StepID = ''s-1'', ar_DistanceM = Finite 0,
      ar_Rewards = bs_Rewards example_step1, ar_Run = example_run,
      ar_Player = example_player, ar_Idempotency = False\<rparr>"

definition example_legacy_record :: AttemptRecord where
  "example_legacy_record =
     \<lparr>rec_ID = ''a-0'', rec_RunID = ''run-1'', rec_StepID = ''s-1'', rec_PlayerID = ''p-1'',
      rec_IdempotencyKey = [], rec_RewardApplied = True,
      rec_Response = Some example_stored_response, rec_CreatedAt = 1\<rparr>"

definition example_legacy_world :: db where
  "example_legacy_world = example_world\<lparr>attempts := [example_legacy_record]\<rparr>"

definition example_claimed_world :: db where
  "example_claimed_world =
     example_world\<lparr>attempts := [example_legacy_record\<lparr>rec_IdempotencyKey := ''idem-key-0''\<rparr>]\<rparr>"

definition example_concurrent_insert :: "db \<Rightarrow> db" where
  "example_concurrent_insert d = d\<lparr>attempts := attempts d @ [example_legacy_record]\<rparr>"

definition example_world_after_step1 :: db where
  "example_world_after_step1 =
     snd (Attempt id 10 ''a-1'' ''p-1'' ''run-1'' ''s-1'' example_request example_world)"

text \<open>The run that \<open>Service.Start\<close> creates.\<close>

definition fresh_run :: "Run \<Rightarrow> bool" where
  "fresh_run run =
     (r_State run = RunStateActive \<and> r_CurrentStep run = 1 \<and> r_KilledSteps run = []
      \<and> r_EndedAt run = None)"

definition example_calls :: "(time \<times> string \<times> string \<times> AttemptRequest) list" where
  "example_calls = [(10, ''a-1'', ''s-1'', example_request), (11, ''a-2'', ''s-2'', example_request)]"

section \<open>Lemmas on the datastore operations\<close>

lemma find_update_one_hit:
  "(\<And>x. P x \<Longrightarrow> P (f x)) \<Longrightarrow> find P (update_one P f xs) = map_option f (find P xs)"
  by (induction xs) auto

lemma find_update_one_other:
  "(\<And>x. Q (f x) = Q x) \<Longrightarrow> (\<And>x. P x \<Longrightarrow> \<not> Q x) \<Longrightarrow> find Q (update_one P f xs) = find Q xs"
  by (induction xs) auto

lemma WithTransaction_Inl: "WithTransaction fn d = (Inl e, d') \<Longrightarrow> d' = d"
  by (auto simp: WithTransaction_def split: prod.splits sum.splits)

lemma WithTransaction_Inr: "WithTransaction fn d = (Inr v, d') \<Longrightarrow> fn d = (Inr v, d')"
  by (auto simp: WithTransaction_def split: prod.splits sum.splits)

lemma cause_wrap [simp]: "cause (wrap m e) = cause e"
  by (cases e) simp

lemma WithTransaction_Inl_cause:
  "WithTransaction fn d = (Inl e, d') \<Longrightarrow> \<exists>e0 d0. fn d = (Inl e0, d0) \<and> cause e = cause e0"
  by (auto simp: WithTransaction_def split: prod.splits sum.splits)

lemma wrap_single [simp]: "(wrap m e = Err [x] s) = (m = x \<and> e = Err [] s)"
  by (cases e) auto

lemmas buy_defs = Buy_def Buy_tx_def validate_BuyListingRequest_def auction_GetByID_def
  WithTransaction_def players_GetByID_def players_SetGold_def players_IncrementGold_def
  inventory_AddItem_def auction_ReplaceListing_def auction_InsertTrade_def

lemma MaxFloat64_large: "2 ^ 100 \<le> MaxFloat64"
  by (simp add: MaxFloat64_def)

lemma MaxFloat64_below_bound: "MaxFloat64 < overflow_bound"
  by (simp add: MaxFloat64_def overflow_bound_def)

lemma double_MaxFloat64_overflows: "overflow_bound \<le> 2 * MaxFloat64"
  by (simp add: MaxFloat64_def overflow_bound_def)

lemma fl_in_range: "\<bar>x\<bar> \<le> MaxFloat64 \<Longrightarrow> fl x = Finite x"
  using MaxFloat64_below_bound by (auto simp: fl_def)

lemma fl_zero [simp]: "fl 0 = Finite 0"
  using MaxFloat64_large by (intro fl_in_range) simp

lemma fl_one [simp]: "fl 1 = Finite 1"
  using MaxFloat64_large by (intro fl_in_range) simp

lemma HaversineMeters_origin:
  "HaversineMeters (Finite 0) (Finite 0) (Finite 0) (Finite 0) = Finite 0"
  by (simp add: HaversineMeters_def toRadians_def f64_sub_def atan2_def Let_def
        earthRadiusMeters_def)

lemma HaversineMeters_overflow:
  "HaversineMeters (Finite 0) (Finite MaxFloat64) (Finite 0) (Finite (- MaxFloat64)) = NaN"
proof -
  have p: "0 < MaxFloat64" by (simp add: MaxFloat64_def)
  have "\<not> overflow_bound \<le> - MaxFloat64 + - MaxFloat64"
    using MaxFloat64_below_bound p by linarith
  moreover have "- MaxFloat64 + - MaxFloat64 \<le> - overflow_bound"
    using double_MaxFloat64_overflows by linarith
  ultimately have "fl (- MaxFloat64 + - MaxFloat64) = NegInf"
    by (simp only: fl_def if_True if_False)
  then show ?thesis
    by (simp add: HaversineMeters_def toRadians_def f64_sub_def Let_def earthRadiusMeters_def)
qed

lemmas attempt_defs = Attempt_def Attempt_tx_def validate_AttemptRequest_def
  runs_GetRunByID_def dungeons_GetStep_def runs_GetAttemptRecord_def
  dungeons_ListStepsByDungeon_def WithTransaction_def runs_CreateAttemptRecord_def
  players_IncrementGold_def inventory_AddItem_def runs_ReplaceRun_def
  runs_UpdateAttemptRecord_def decodeAttemptResponse_def errors_Is_def Let_def
  HaversineMeters_origin

lemmas example_defs = example_world_def example_run_def example_player_def
  example_step1_def example_step2_def example_request_def

lemmas example_overflow_defs = example_overflow_step_def example_overflow_world_def
  example_overflow_request_def

lemmas example_record_defs = example_stored_response_def example_legacy_record_def
  example_legacy_world_def example_claimed_world_def example_concurrent_insert_def

section \<open>The geofence evaluator away from overflow\<close>

text \<open>
  On finite coordinates whose differences stay within the range of the format no
  operation of \<open>HaversineMeters\<close> overflows: the argument of the square roots lies
  between 0 and 1, and the \<open>Atan2\<close> form that the code computes is the arcsine form of
  the haversine formula. Rounding, and with it the case of an argument that rounds above
  1, is outside this model.
\<close>

lemma sin_half_squared: "(sin (x / 2))\<^sup>2 = (1 - cos x) / (2 :: real)"
proof -
  have "cos x = cos (2 * (x / 2))" by simp
  also have "\<dots> = 1 - 2 * (sin (x / 2))\<^sup>2" by (rule cos_double_sin)
  finally show ?thesis by simp
qed

lemma haversine_argument_eq:
  fixes x y l :: real
  shows "(sin ((y - x) / 2))\<^sup>2 + cos x * cos y * (sin (l / 2))\<^sup>2
           = (1 - (sin x * sin y + cos x * cos y * cos l)) / 2"
  by (simp add: sin_half_squared cos_diff field_simps)

lemma central_cosine_bounds:
  fixes x y l :: real
  shows "\<bar>sin x * sin y + cos x * cos y * cos l\<bar> \<le> 1"
proof -
  let ?c = "cos l"
  have e: "sin x * sin y + cos x * cos y * ?c
             = (1 + ?c) / 2 * cos (x - y) - (1 - ?c) / 2 * cos (x + y)"
    by (simp add: cos_diff cos_add field_simps)
  have "0 \<le> 1 + ?c" using cos_ge_minus_one [of l] by arith
  then have w1: "0 \<le> (1 + ?c) / 2" by simp
  have "0 \<le> 1 - ?c" using cos_le_one [of l] by arith
  then have w2: "0 \<le> (1 - ?c) / 2" by simp
  have a: "\<bar>(1 + ?c) / 2 * cos (x - y)\<bar> \<le> (1 + ?c) / 2"
    using w1 abs_cos_le_one [of "x - y"] by (simp add: abs_mult mult_left_le)
  have b: "\<bar>(1 - ?c) / 2 * cos (x + y)\<bar> \<le> (1 - ?c) / 2"
    using w2 abs_cos_le_one [of "x + y"] by (simp add: abs_mult mult_left_le)
  have "\<bar>(1 + ?c) / 2 * cos (x - y) - (1 - ?c) / 2 * cos (x + y)\<bar>
          \<le> (1 + ?c) / 2 + (1 - ?c) / 2"
    using a b by linarith
  also have "(1 + ?c) / 2 + (1 - ?c) / 2 = 1" by (simp add: field_simps)
  finally show ?thesis unfolding e .
qed

lemma haversine_argument_bounds:
  fixes x y l :: real
  defines "a \<equiv> (sin ((y - x) / 2))\<^sup>2 + cos x * cos y * (sin (l / 2))\<^sup>2"
  shows "0 \<le> a \<and> a \<le> 1"
proof -
  have "a = (1 - (sin x * sin y + cos x * cos y * cos l)) / 2"
    unfolding a_def by (rule haversine_argument_eq)
  with central_cosine_bounds [of x y l] show ?thesis by (simp add: abs_le_iff)
qed

lemma atan2_sqrt_arcsin:
  assumes "0 \<le> a" "a \<le> 1"
  shows "atan2 (sqrt a) (sqrt (1 - a)) = arcsin (sqrt a)"
proof (cases "a = 1")
  case True
  then show ?thesis by (simp add: atan2_def)
next
  case False
  with assms have lt: "a < 1" by simp
  then have pos: "0 < sqrt (1 - a)" by simp
  have s: "- 1 < sqrt a" "sqrt a < 1"
    using assms lt by (simp_all add: less_le_trans [of "-1" 0] real_sqrt_lt_1_iff)
  have "arcsin (sqrt a) = arctan (sqrt a / sqrt (1 - (sqrt a)\<^sup>2))"
    using s by (rule arcsin_arctan)
  also have "(sqrt a)\<^sup>2 = a" using assms by simp
  finally show ?thesis using pos by (simp add: atan2_def)
qed

lemma small_in_range: "\<bar>x\<bar> \<le> 2 ^ 100 \<Longrightarrow> fl x = Finite x"
  using MaxFloat64_large by (intro fl_in_range) linarith

lemma unit_product: "\<bar>x\<bar> \<le> 1 \<Longrightarrow> \<bar>y\<bar> \<le> 1 \<Longrightarrow> \<bar>x * y\<bar> \<le> (1 :: real)"
  by (simp add: abs_mult mult_le_one)

lemma f64_mul_unit:
  "\<bar>x\<bar> \<le> 1 \<Longrightarrow> \<bar>y\<bar> \<le> 1 \<Longrightarrow> f64_mul (Finite x) (Finite y) = Finite (x * y)"
  using unit_product [of x y] by (simp only: f64_mul.simps) (rule small_in_range, simp)

lemma arcsin_sqrt_small:
  assumes "0 \<le> a" "a \<le> 1"
  shows "\<bar>arcsin (sqrt a)\<bar> \<le> 2"
proof -
  have "- 1 \<le> sqrt a" "sqrt a \<le> 1"
    using assms by (simp_all add: order_trans [of "-1" 0])
  then have "- (pi / 2) \<le> arcsin (sqrt a) \<and> arcsin (sqrt a) \<le> pi / 2"
    by (rule arcsin_bounded)
  with pi_less_4 show ?thesis by linarith
qed

lemma f64_sub_Finite:
  "\<bar>x - y\<bar> \<le> MaxFloat64 \<Longrightarrow> f64_sub (Finite x) (Finite y) = Finite (x - y)"
  by (simp add: f64_sub_def fl_in_range)

lemma f64_sub_one:
  assumes "0 \<le> a" "a \<le> 1"
  shows "f64_sub (Finite 1) (Finite a) = Finite (1 - a)"
proof -
  have "\<bar>1 - a\<bar> \<le> 2 ^ 100" using assms by simp
  with MaxFloat64_large have "\<bar>1 - a\<bar> \<le> MaxFloat64" by linarith
  then show ?thesis by (rule f64_sub_Finite)
qed

lemma degree_factor: "\<bar>v * (pi / 180)\<bar> \<le> \<bar>v\<bar>"
proof -
  have "0 \<le> pi / 180" "pi / 180 \<le> 1" using pi_less_4 pi_ge_zero by simp_all
  then have "\<bar>v\<bar> * (pi / 180) \<le> \<bar>v\<bar> * 1" by (intro mult_left_mono) simp_all
  then show ?thesis by (simp add: abs_mult)
qed

lemma toRadians_Finite:
  "\<bar>v\<bar> \<le> MaxFloat64 \<Longrightarrow> toRadians (Finite v) = Finite (v * (pi / 180))"
  unfolding toRadians_def using degree_factor [of v] by (simp add: fl_in_range)

lemma half_Finite:
  "\<bar>v\<bar> \<le> MaxFloat64 \<Longrightarrow> f64_div (Finite v) (Finite 2) = Finite (v / 2)"
  by (simp add: fl_in_range)

lemma HaversineMeters_in_range:
  assumes b: "\<bar>lat1\<bar> \<le> MaxFloat64" "\<bar>lat2\<bar> \<le> MaxFloat64"
      and dlat: "\<bar>lat2 - lat1\<bar> \<le> MaxFloat64"
      and dlon: "\<bar>lon2 - lon1\<bar> \<le> MaxFloat64"
  shows "HaversineMeters (Finite lat1) (Finite lon1) (Finite lat2) (Finite lon2) =
           Finite (haversine_formula (lat1 * (pi / 180)) (lon1 * (pi / 180))
                     (lat2 * (pi / 180)) (lon2 * (pi / 180)))"
proof -
  let ?x = "lat1 * (pi / 180)" and ?y = "lat2 * (pi / 180)"
  let ?dl = "?y - ?x" and ?dn = "lon2 * (pi / 180) - lon1 * (pi / 180)"
  let ?a = "(sin (?dl / 2))\<^sup>2 + cos ?x * cos ?y * (sin (?dn / 2))\<^sup>2"
  have dl: "(lat2 - lat1) * (pi / 180) = ?dl" and dn: "(lon2 - lon1) * (pi / 180) = ?dn"
    by (simp_all only: left_diff_distrib)
  have s1: "f64_sub (Finite lat2) (Finite lat1) = Finite (lat2 - lat1)"
    and s2: "f64_sub (Finite lon2) (Finite lon1) = Finite (lon2 - lon1)"
    using dlat dlon by (simp_all only: f64_sub_Finite)
  have r1: "toRadians (Finite (lat2 - lat1)) = Finite ?dl"
    using toRadians_Finite [OF dlat] unfolding dl .
  have r2: "toRadians (Finite (lon2 - lon1)) = Finite ?dn"
    using toRadians_Finite [OF dlon] unfolding dn .
  have r3: "toRadians (Finite lat1) = Finite ?x"
    and r4: "toRadians (Finite lat2) = Finite ?y"
    using b by (simp_all only: toRadians_Finite)
  have hl: "\<bar>?dl\<bar> \<le> MaxFloat64"
    using degree_factor [of "lat2 - lat1"] dlat unfolding dl by linarith
  have hn: "\<bar>?dn\<bar> \<le> MaxFloat64"
    using degree_factor [of "lon2 - lon1"] dlon unfolding dn by linarith
  have h1: "f64_div (Finite ?dl) (Finite 2) = Finite (?dl / 2)"
    using hl by (rule half_Finite)
  have h2: "f64_div (Finite ?dn) (Finite 2) = Finite (?dn / 2)"
    using hn by (rule half_Finite)
  have one: "\<bar>z\<bar> \<le> 1 \<Longrightarrow> fl z = Finite z" for z
    by (rule small_in_range) simp
  have cc: "\<bar>cos ?x * cos ?y\<bar> \<le> 1" by (intro unit_product) simp_all
  then have ccs: "\<bar>cos ?x * cos ?y * sin (?dn / 2)\<bar> \<le> 1" by (intro unit_product) simp_all
  have m1: "f64_mul (Finite (sin (?dl / 2))) (Finite (sin (?dl / 2)))
              = Finite (sin (?dl / 2) * sin (?dl / 2))"
    by (rule f64_mul_unit) simp_all
  have m2: "f64_mul (Finite (cos ?x)) (Finite (cos ?y)) = Finite (cos ?x * cos ?y)"
    by (rule f64_mul_unit) simp_all
  have m3: "f64_mul (Finite (cos ?x * cos ?y)) (Finite (sin (?dn / 2)))
              = Finite (cos ?x * cos ?y * sin (?dn / 2))"
    using cc by (rule f64_mul_unit) simp
  have m4: "f64_mul (Finite (cos ?x * cos ?y * sin (?dn / 2))) (Finite (sin (?dn / 2)))
              = Finite (cos ?x * cos ?y * sin (?dn / 2) * sin (?dn / 2))"
    using ccs by (rule f64_mul_unit) simp
  have a: "sin (?dl / 2) * sin (?dl / 2) + cos ?x * cos ?y * sin (?dn / 2) * sin (?dn / 2) = ?a"
    by (simp add: power2_eq_square)
  have ab: "0 \<le> ?a \<and> ?a \<le> 1" by (rule haversine_argument_bounds)
  have m5: "f64_add (Finite (sin (?dl / 2) * sin (?dl / 2)))
              (Finite (cos ?x * cos ?y * sin (?dn / 2) * sin (?dn / 2))) = Finite ?a"
    using ab unfolding f64_add.simps a by (intro one) simp
  have q1: "math_Sqrt (Finite ?a) = Finite (sqrt ?a)" using ab by simp
  have "f64_sub (Finite 1) (Finite ?a) = Finite (1 - ?a)"
    using ab by (intro f64_sub_one) simp_all
  then have q2: "math_Sqrt (f64_sub (Finite 1) (Finite ?a)) = Finite (sqrt (1 - ?a))"
    using ab by simp
  have at: "atan2 (sqrt ?a) (sqrt (1 - ?a)) = arcsin (sqrt ?a)"
    using ab by (intro atan2_sqrt_arcsin) simp_all
  have as: "\<bar>arcsin (sqrt ?a)\<bar> \<le> 2"
    using ab by (intro arcsin_sqrt_small) simp_all
  have c: "f64_mul (Finite 2) (Finite (arcsin (sqrt ?a))) = Finite (2 * arcsin (sqrt ?a))"
    using as by (simp only: f64_mul.simps) (intro small_in_range, simp)
  have e: "f64_mul (Finite 6371000) (Finite (2 * arcsin (sqrt ?a)))
             = Finite (6371000 * (2 * arcsin (sqrt ?a)))"
    using as by (simp only: f64_mul.simps) (intro small_in_range, simp add: abs_mult)
  have "HaversineMeters (Finite lat1) (Finite lon1) (Finite lat2) (Finite lon2)
          = Finite (6371000 * (2 * arcsin (sqrt ?a)))"
    unfolding HaversineMeters_def Let_def s1 s2 r1 r2 r3 r4 h1 h2 math_Sin.simps math_Cos.simps
      m1 m2 m3 m4 m5 q1 q2 math_Atan2.simps at c earthRadiusMeters_def e ..
  then show ?thesis
    by (simp only: haversine_formula_def) simp
qed

section \<open>Lemmas on the auction service\<close>

lemma Buy_error_unchanged:
  "Buy tc now tid buyer lid req d = (Inl e, d') \<Longrightarrow> d' = d"
  by (auto simp: Buy_def split: if_splits sum.splits prod.splits dest: WithTransaction_Inl)

lemma Buy_Inr_D:
  assumes "Buy tc now tid buyer lid req d = (Inr out, d')"
  shows "\<exists>listing. auction_GetByID lid d = Inr listing
           \<and> validate_BuyListingRequest req
           \<and> l_Status listing = ListingStatusActive \<and> l_SellerID listing \<noteq> buyer
           \<and> sint (blr_Qty req) \<le> sint (l_Qty listing)
           \<and> (\<forall>t. l_ExpiresAt listing = Some t \<longrightarrow> \<not> t < tc)
           \<and> Buy_tx now tid buyer listing req (blr_Qty req * l_PricePerUnit listing) d = (Inr out, d')"
  using assms
  by (auto simp: Buy_def split: if_splits sum.splits prod.splits option.splits dest: WithTransaction_Inr)

lemma players_SetGold_Inr:
  "players_SetGold pid g t d = (Inr p, d') \<Longrightarrow>
     d' = d\<lparr>players := update_one (\<lambda>p. p_ID p = pid) (\<lambda>p. p\<lparr>p_Gold := g, p_UpdatedAt := t\<rparr>) (players d)\<rparr>"
  by (auto simp: players_SetGold_def split: option.splits)

lemma players_IncrementGold_Inr:
  "players_IncrementGold pid g t d = (Inr p, d') \<Longrightarrow>
     (\<exists>p0. find (\<lambda>p. p_ID p = pid) (players d) = Some p0) \<and>
     d' = d\<lparr>players := update_one (\<lambda>p. p_ID p = pid) (\<lambda>p. p\<lparr>p_Gold := p_Gold p + g, p_UpdatedAt := t\<rparr>) (players d)\<rparr>"
  by (auto simp: players_IncrementGold_def split: option.splits)

lemma inventory_AddItem_Inr:
  "inventory_AddItem pid i q t d = (Inr u, d') \<Longrightarrow>
     players d' = players d \<and> listings d' = listings d \<and> trades d' = trades d"
  by (auto simp: inventory_AddItem_def split: option.splits if_splits)

lemma auction_ReplaceListing_Inr:
  "auction_ReplaceListing l d = (Inr out, d') \<Longrightarrow>
     out = l \<and> d' = d\<lparr>listings := update_one (\<lambda>x. l_ID x = l_ID l) (\<lambda>_. l) (listings d)\<rparr>"
  by (auto simp: auction_ReplaceListing_def split: option.splits)

lemma auction_InsertTrade_Inr:
  "auction_InsertTrade tr d = (Inr u, d') \<Longrightarrow> d' = d\<lparr>trades := trades d @ [tr]\<rparr>"
  by (auto simp: auction_InsertTrade_def split: if_splits)

lemma Buy_tx_Inr_D:
  assumes "Buy_tx now tid buyer listing req tp d = (Inr out, d')"
  shows "\<exists>b d1 d2 d3 d4 pb ps.
           players_GetByID buyer d = Inr b \<and> \<not> sint (p_Gold b) < sint tp
         \<and> players_SetGold buyer (p_Gold b - tp) now d = (Inr pb, d1)
         \<and> players_IncrementGold (l_SellerID listing) tp now d1 = (Inr ps, d2)
         \<and> inventory_AddItem buyer (l_ItemID listing) (blr_Qty req) now d2 = (Inr (), d3)
         \<and> auction_ReplaceListing
              (if blr_Qty req = l_Qty listing
               then listing\<lparr>l_Status := ListingStatusSold, l_BuyerID := buyer, l_Qty := 0\<rparr>
               else listing\<lparr>l_Qty := l_Qty listing - blr_Qty req\<rparr>) d3 = (Inr out, d4)
         \<and> auction_InsertTrade
              \<lparr>t_ID = tid, t_BuyerID = buyer, t_SellerID = l_SellerID listing,
               t_ListingID = l_ID listing, t_ItemID = l_ItemID listing,
               t_Qty = blr_Qty req, t_TotalPrice = tp, t_CreatedAt = now\<rparr> d4 = (Inr (), d')"
  using assms
  by (auto simp: Buy_tx_def Let_def split: if_splits sum.splits prod.splits)


lemma Buy_players_after:
  assumes tx: "Buy_tx now tid buyer listing req tp d = (Inr out, d')"
      and ne: "l_SellerID listing \<noteq> buyer"
  shows "\<exists>b s. players_GetByID buyer d = Inr b
           \<and> players_GetByID (l_SellerID listing) d = Inr s
           \<and> players_GetByID buyer d' = Inr (b\<lparr>p_Gold := p_Gold b - tp, p_UpdatedAt := now\<rparr>)
           \<and> players_GetByID (l_SellerID listing) d' = Inr (s\<lparr>p_Gold := p_Gold s + tp, p_UpdatedAt := now\<rparr>)"
proof -
  from Buy_tx_Inr_D [OF tx] obtain b d1 d2 d3 d4 pb ps where
    b: "players_GetByID buyer d = Inr b"
    and s1: "players_SetGold buyer (p_Gold b - tp) now d = (Inr pb, d1)"
    and s2: "players_IncrementGold (l_SellerID listing) tp now d1 = (Inr ps, d2)"
    and s3: "inventory_AddItem buyer (l_ItemID listing) (blr_Qty req) now d2 = (Inr (), d3)"
    and s4: "auction_ReplaceListing
              (if blr_Qty req = l_Qty listing
               then listing\<lparr>l_Status := ListingStatusSold, l_BuyerID := buyer, l_Qty := 0\<rparr>
               else listing\<lparr>l_Qty := l_Qty listing - blr_Qty req\<rparr>) d3 = (Inr out, d4)"
    and s5: "auction_InsertTrade
              \<lparr>t_ID = tid, t_BuyerID = buyer, t_SellerID = l_SellerID listing,
               t_ListingID = l_ID listing, t_ItemID = l_ItemID listing,
               t_Qty = blr_Qty req, t_TotalPrice = tp, t_CreatedAt = now\<rparr> d4 = (Inr (), d')"
    by blast
  let ?setb = "\<lambda>p. p\<lparr>p_Gold := p_Gold b - tp, p_UpdatedAt := now\<rparr>"
  let ?incs = "\<lambda>p. p\<lparr>p_Gold := p_Gold p + tp, p_UpdatedAt := now\<rparr>"
  have fb: "find (\<lambda>p. p_ID p = buyer) (players d) = Some b"
    using b by (auto simp: players_GetByID_def split: option.splits)
  have p1: "players d1 = update_one (\<lambda>p. p_ID p = buyer) ?setb (players d)"
    using players_SetGold_Inr [OF s1] by simp
  from players_IncrementGold_Inr [OF s2] obtain s0 where
    fs1: "find (\<lambda>p. p_ID p = l_SellerID listing) (players d1) = Some s0"
    and p2: "players d2 = update_one (\<lambda>p. p_ID p = l_SellerID listing) ?incs (players d1)"
    by auto
  have fs: "find (\<lambda>p. p_ID p = l_SellerID listing) (players d) = Some s0"
    using fs1 ne unfolding p1 by (subst (asm) find_update_one_other) auto
  have p': "players d' = players d2"
    using inventory_AddItem_Inr [OF s3] auction_ReplaceListing_Inr [OF s4]
      auction_InsertTrade_Inr [OF s5] by auto
  have fb1: "find (\<lambda>p. p_ID p = buyer) (players d1) = Some (?setb b)"
    unfolding p1 using fb by (subst find_update_one_hit) auto
  have fb2: "find (\<lambda>p. p_ID p = buyer) (players d2) = Some (?setb b)"
    unfolding p2 using fb1 ne by (subst find_update_one_other) auto
  have fs2: "find (\<lambda>p. p_ID p = l_SellerID listing) (players d2) = Some (?incs s0)"
    unfolding p2 using fs1 by (subst find_update_one_hit) auto
  show ?thesis
    using fb fs fb2 fs2 p' by (simp add: players_GetByID_def)
qed

lemma Buy_trades_after:
  assumes tx: "Buy_tx now tid buyer listing req tp d = (Inr out, d')"
  shows "trades d' = trades d @
           [\<lparr>t_ID = tid, t_BuyerID = buyer, t_SellerID = l_SellerID listing,
             t_ListingID = l_ID listing, t_ItemID = l_ItemID listing,
             t_Qty = blr_Qty req, t_TotalPrice = tp, t_CreatedAt = now\<rparr>]"
proof -
  from Buy_tx_Inr_D [OF tx] obtain b d1 d2 d3 d4 pb ps where
    b: "players_GetByID buyer d = Inr b"
    and s1: "players_SetGold buyer (p_Gold b - tp) now d = (Inr pb, d1)"
    and s2: "players_IncrementGold (l_SellerID listing) tp now d1 = (Inr ps, d2)"
    and s3: "inventory_AddItem buyer (l_ItemID listing) (blr_Qty req) now d2 = (Inr (), d3)"
    and s4: "auction_ReplaceListing
              (if blr_Qty req = l_Qty listing
               then listing\<lparr>l_Status := ListingStatusSold, l_BuyerID := buyer, l_Qty := 0\<rparr>
               else listing\<lparr>l_Qty := l_Qty listing - blr_Qty req\<rparr>) d3 = (Inr out, d4)"
    and s5: "auction_InsertTrade
              \<lparr>t_ID = tid, t_BuyerID = buyer, t_SellerID = l_SellerID listing,
               t_ListingID = l_ID listing, t_ItemID = l_ItemID listing,
               t_Qty = blr_Qty req, t_TotalPrice = tp, t_CreatedAt = now\<rparr> d4 = (Inr (), d')"
    by blast
  show ?thesis
    using players_SetGold_Inr [OF s1] players_IncrementGold_Inr [OF s2]
      inventory_AddItem_Inr [OF s3] auction_ReplaceListing_Inr [OF s4]
      auction_InsertTrade_Inr [OF s5] by auto
qed

text \<open>
  What every successful buy does to the ledgers: the balances move by the product that
  the code computes, which is \<open>q * p\<close> modulo \<open>2 ^ 64\<close>, and one receipt is appended.
\<close>

lemma Buy_transfers_wrapped_total:
  assumes "Buy t_check now tradeID buyerID listingID req d = (Inr out, d')"
  shows "\<exists>listing b s b' s'.
           auction_GetByID listingID d = Inr listing
         \<and> players_GetByID buyerID d = Inr b
         \<and> players_GetByID (l_SellerID listing) d = Inr s
         \<and> players_GetByID buyerID d' = Inr b'
         \<and> players_GetByID (l_SellerID listing) d' = Inr s'
         \<and> p_Gold b' = p_Gold b - blr_Qty req * l_PricePerUnit listing
         \<and> p_Gold s' = p_Gold s + blr_Qty req * l_PricePerUnit listing
         \<and> trades d' = trades d @
              [\<lparr>t_ID = tradeID, t_BuyerID = buyerID, t_SellerID = l_SellerID listing,
                t_ListingID = listingID, t_ItemID = l_ItemID listing,
                t_Qty = blr_Qty req,
                t_TotalPrice = blr_Qty req * l_PricePerUnit listing, t_CreatedAt = now\<rparr>]"
proof -
  from Buy_Inr_D [OF assms] obtain listing where
    l: "auction_GetByID listingID d = Inr listing"
    and ne: "l_SellerID listing \<noteq> buyerID"
    and tx: "Buy_tx now tradeID buyerID listing req (blr_Qty req * l_PricePerUnit listing) d = (Inr out, d')"
    by blast
  have lid: "l_ID listing = listingID"
    using l by (auto simp: auction_GetByID_def find_Some_iff split: option.splits)
  from Buy_players_after [OF tx ne] Buy_trades_after [OF tx] l lid
  show ?thesis by auto
qed

lemma example_buy:
  "Buy 1 1 ''t1'' ''buyer'' ''l1'' \<lparr>blr_Qty = 2\<rparr> example_market =
     (Inr \<lparr>l_ID = ''l1'', l_SellerID = ''seller'', l_BuyerID = [], l_ItemID = ''sword'',
          l_Qty = 1, l_PricePerUnit = 10, l_Status = ListingStatusActive, l_CreatedAt = 0,
          l_ExpiresAt = None\<rparr>, example_market_after)"
  by (simp add: buy_defs example_market_def example_market_after_def example_listing_def Let_def)

lemma Buy_conflict:
  assumes "validate_BuyListingRequest req"
      and "auction_GetByID listingID d = Inr listing"
      and "l_Status listing \<noteq> ListingStatusActive
           \<or> l_SellerID listing = buyerID
           \<or> sint (blr_Qty req) > sint (l_Qty listing)
           \<or> (\<exists>t. l_ExpiresAt listing = Some t \<and> t < t_check)"
  shows "\<exists>e. Buy t_check now tradeID buyerID listingID req d = (Inl e, d) \<and> errors_Is e ErrConflict"
  using assms by (auto simp: Buy_def errors_Is_def)

lemma Buy_insufficient:
  assumes "validate_BuyListingRequest req"
      and "auction_GetByID listingID d = Inr listing"
      and "l_Status listing = ListingStatusActive"
      and "l_SellerID listing \<noteq> buyerID"
      and "sint (blr_Qty req) \<le> sint (l_Qty listing)"
      and "\<forall>t. l_ExpiresAt listing = Some t \<longrightarrow> \<not> t < t_check"
      and "players_GetByID buyerID d = Inr b"
      and "sint (p_Gold b) < sint (blr_Qty req * l_PricePerUnit listing)"
  shows "\<exists>e. Buy t_check now tradeID buyerID listingID req d = (Inl e, d) \<and> errors_Is e ErrInsufficient"
  using assms
  by (auto simp: Buy_def Buy_tx_def WithTransaction_def errors_Is_def split: option.splits)

text \<open>
  The integer reading of the ledger transfer. When the price is not negative, the product
  \<open>q * p\<close> fits \<open>int64\<close> and the seller's new balance fits too, a successful buy
  moves exactly \<open>q * p\<close> as integers, and a balance below \<open>q * p\<close> is rejected. The
  hypotheses on the product are what the code does not check.
\<close>

lemma sint_mult_exact:
  fixes a b :: "64 word"
  assumes "- (2 ^ 63) \<le> sint a * sint b" "sint a * sint b < 2 ^ 63"
  shows "sint (a * b) = sint a * sint b"
  using assms by (simp add: sint_word_ariths signed_take_bit_int_eq_self)

lemma sint_minus_exact:
  fixes a b :: "64 word"
  assumes "- (2 ^ 63) \<le> sint a - sint b" "sint a - sint b < 2 ^ 63"
  shows "sint (a - b) = sint a - sint b"
  using assms by (simp add: sint_word_ariths signed_take_bit_int_eq_self)

lemma sint_plus_exact:
  fixes a b :: "64 word"
  assumes "- (2 ^ 63) \<le> sint a + sint b" "sint a + sint b < 2 ^ 63"
  shows "sint (a + b) = sint a + sint b"
  using assms by (simp add: sint_word_ariths signed_take_bit_int_eq_self)

lemma Buy_total_exact:
  assumes "validate_BuyListingRequest req"
      and "0 \<le> sint (l_PricePerUnit listing)"
      and "sint (blr_Qty req) * sint (l_PricePerUnit listing) < 2 ^ 63"
  shows "sint (blr_Qty req * l_PricePerUnit listing)
           = sint (blr_Qty req) * sint (l_PricePerUnit listing)"
proof -
  have "1 \<le> sint (blr_Qty req)"
    using assms(1) by (simp add: validate_BuyListingRequest_def)
  then have "0 \<le> sint (blr_Qty req) * sint (l_PricePerUnit listing)"
    using assms(2) by simp
  moreover have "- (2 ^ 63) \<le> (0 :: int)" by simp
  ultimately have "- (2 ^ 63) \<le> sint (blr_Qty req) * sint (l_PricePerUnit listing)"
    by (rule order_trans [rotated])
  then show ?thesis using assms(3) by (rule sint_mult_exact)
qed

lemma Buy_transfers_integer_total:
  assumes ok: "Buy t_check now tradeID buyerID listingID req d = (Inr out, d')"
      and l: "auction_GetByID listingID d = Inr listing"
      and b: "players_GetByID buyerID d = Inr b"
      and s: "players_GetByID (l_SellerID listing) d = Inr s"
      and price: "0 \<le> sint (l_PricePerUnit listing)"
      and total: "sint (blr_Qty req) * sint (l_PricePerUnit listing) < 2 ^ 63"
      and credit: "sint (p_Gold s) + sint (blr_Qty req) * sint (l_PricePerUnit listing) < 2 ^ 63"
  shows "\<exists>b' s' t.
           players_GetByID buyerID d' = Inr b'
         \<and> players_GetByID (l_SellerID listing) d' = Inr s'
         \<and> sint (p_Gold b') = sint (p_Gold b) - sint (blr_Qty req) * sint (l_PricePerUnit listing)
         \<and> sint (p_Gold s') = sint (p_Gold s) + sint (blr_Qty req) * sint (l_PricePerUnit listing)
         \<and> trades d' = trades d @ [t]
         \<and> sint (t_TotalPrice t) = sint (blr_Qty req) * sint (l_PricePerUnit listing)"
proof -
  let ?tp = "blr_Qty req * l_PricePerUnit listing"
  let ?n = "sint (blr_Qty req) * sint (l_PricePerUnit listing)"
  from Buy_Inr_D [OF ok] l have v: "validate_BuyListingRequest req"
    and tx: "Buy_tx now tradeID buyerID listing req ?tp d = (Inr out, d')"
    by auto
  have tp: "sint ?tp = ?n" using v price total by (rule Buy_total_exact)
  have "1 \<le> sint (blr_Qty req)" using v by (simp add: validate_BuyListingRequest_def)
  then have n0: "0 \<le> ?n" using price by simp
  from Buy_tx_Inr_D [OF tx] b have enough: "\<not> sint (p_Gold b) < sint ?tp" by auto
  from Buy_transfers_wrapped_total [OF ok] l b s obtain b' s' where
    gb: "players_GetByID buyerID d' = Inr b'"
    and gs: "players_GetByID (l_SellerID listing) d' = Inr s'"
    and pb: "p_Gold b' = p_Gold b - ?tp"
    and ps: "p_Gold s' = p_Gold s + ?tp"
    and tr: "trades d' = trades d @
              [\<lparr>t_ID = tradeID, t_BuyerID = buyerID, t_SellerID = l_SellerID listing,
                t_ListingID = listingID, t_ItemID = l_ItemID listing,
                t_Qty = blr_Qty req, t_TotalPrice = ?tp, t_CreatedAt = now\<rparr>]"
    by auto
  have z: "- (2 ^ 63) \<le> (0 :: int)" by simp
  have rb: "sint (p_Gold b) < 2 ^ 63"
    and rs: "- (2 ^ 63) \<le> sint (p_Gold s)"
    using sint_lt [of "p_Gold b"] sint_ge [of "p_Gold s"] by simp_all
  have "0 \<le> sint (p_Gold b) - sint ?tp" using enough by linarith
  with z have b1: "- (2 ^ 63) \<le> sint (p_Gold b) - sint ?tp" by (rule order_trans)
  have "sint (p_Gold b) - sint ?tp \<le> sint (p_Gold b)" using n0 unfolding tp by linarith
  then have b2: "sint (p_Gold b) - sint ?tp < 2 ^ 63" using rb by (rule le_less_trans)
  have "sint (p_Gold b - ?tp) = sint (p_Gold b) - sint ?tp"
    using b1 b2 by (rule sint_minus_exact)
  then have 1: "sint (p_Gold b') = sint (p_Gold b) - ?n" unfolding pb tp .
  have "sint (p_Gold s) \<le> sint (p_Gold s) + sint ?tp" using n0 unfolding tp by linarith
  with rs have s1: "- (2 ^ 63) \<le> sint (p_Gold s) + sint ?tp" by (rule order_trans)
  have s2: "sint (p_Gold s) + sint ?tp < 2 ^ 63" using credit unfolding tp .
  have "sint (p_Gold s + ?tp) = sint (p_Gold s) + sint ?tp"
    using s1 s2 by (rule sint_plus_exact)
  then have 2: "sint (p_Gold s') = sint (p_Gold s) + ?n" unfolding ps tp .
  show ?thesis using gb gs 1 2 tr tp by simp
qed

lemma Buy_insufficient_integer:
  assumes "validate_BuyListingRequest req"
      and "auction_GetByID listingID d = Inr listing"
      and "l_Status listing = ListingStatusActive"
      and "l_SellerID listing \<noteq> buyerID"
      and "sint (blr_Qty req) \<le> sint (l_Qty listing)"
      and "\<forall>t. l_ExpiresAt listing = Some t \<longrightarrow> \<not> t < t_check"
      and "players_GetByID buyerID d = Inr b"
      and "0 \<le> sint (l_PricePerUnit listing)"
      and "sint (blr_Qty req) * sint (l_PricePerUnit listing) < 2 ^ 63"
      and "sint (p_Gold b) < sint (blr_Qty req) * sint (l_PricePerUnit listing)"
  shows "\<exists>e. Buy t_check now tradeID buyerID listingID req d = (Inl e, d) \<and> errors_Is e ErrInsufficient"
proof -
  have "sint (p_Gold b) < sint (blr_Qty req * l_PricePerUnit listing)"
    using assms(10) Buy_total_exact [OF assms(1,8,9)] by simp
  with assms(1-7) show ?thesis by (rule Buy_insufficient)
qed

section \<open>Lemmas on the run service\<close>

text \<open>A stored response does not come back as it was written.\<close>

lemma decodeAttemptResponse_example:
  "decodeAttemptResponse (Some example_stored_response) =
     Inr (example_stored_response
            \<lparr>ar_Run := example_run\<lparr>r_ID := []\<rparr>, ar_Player := example_player\<lparr>p_ID := []\<rparr>\<rparr>)"
  by (simp add: decodeAttemptResponse_def read_back_def example_stored_response_def
        example_player_def)

lemma inventory_AddItem_cause:
  "inventory_AddItem p i q t d = (Inl e, d') \<Longrightarrow> cause e = ErrValidation \<or> cause e = ErrDriver"
  by (auto simp: inventory_AddItem_def split: if_splits option.splits)

lemma apply_reward_items_cause:
  "apply_reward_items p items t d = (Inl e, d') \<Longrightarrow> cause e = ErrValidation \<or> cause e = ErrDriver"
proof (induction items arbitrary: d)
  case Nil
  then show ?case by simp
next
  case (Cons item items)
  then show ?case
    by (auto split: prod.splits sum.splits dest: inventory_AddItem_cause)
qed

lemma Attempt_tx_cause:
  assumes "Attempt_tx now record playerID runID stepID step run stepList distance d = (Inl e, d')"
  shows "cause e \<in> {ErrAlreadyHandled, ErrNotFound, ErrValidation, ErrDriver}"
  using assms
  by (auto simp: Attempt_tx_def Let_def runs_CreateAttemptRecord_def players_IncrementGold_def
        runs_ReplaceRun_def runs_UpdateAttemptRecord_def
      split: prod.splits sum.splits if_splits option.splits dest: apply_reward_items_cause)

lemma Attempt_not_in_range:
  assumes "validate_AttemptRequest req"
      and "runs_GetRunByID runID d = Inr run"
      and "r_PlayerID run = playerID"
      and "r_State run = RunStateActive"
      and "dungeons_GetStep (r_DungeonID run) stepID d = Inr step"
      and "bs_Order step = r_CurrentStep run"
      and "f64_gt (HaversineMeters (the (req_Lat req)) (the (req_Lon req))
                     (loc_Lat (bs_Location step)) (loc_Lon (bs_Location step)))
             (loc_RadiusMeters (bs_Location step))"
  shows "\<exists>e. Attempt others now recordID playerID runID stepID req d = (Inl e, d)
             \<and> errors_Is e ErrNotInRange"
  using assms by (simp add: Attempt_def errors_Is_def Let_def)

lemma Attempt_in_range_admitted:
  assumes "validate_AttemptRequest req"
      and "runs_GetRunByID runID d = Inr run"
      and "r_PlayerID run = playerID"
      and "r_State run = RunStateActive"
      and "dungeons_GetStep (r_DungeonID run) stepID d = Inr step"
      and "bs_Order step = r_CurrentStep run"
      and "\<not> f64_gt (HaversineMeters (the (req_Lat req)) (the (req_Lon req))
                       (loc_Lat (bs_Location step)) (loc_Lon (bs_Location step)))
               (loc_RadiusMeters (bs_Location step))"
      and "Attempt others now recordID playerID runID stepID req d = (Inl e, d')"
  shows "\<not> errors_Is e ErrNotInRange"
  using assms
  by (auto simp: Attempt_def errors_Is_def Let_def runs_GetAttemptRecord_def decodeAttemptResponse_def
      split: sum.splits float64.splits if_splits prod.splits option.splits
      dest!: WithTransaction_Inl_cause Attempt_tx_cause)

lemma Attempt_existing_record_unchanged:
  assumes "runs_GetAttemptRecord runID stepID d = Inr stored"
  shows "snd (Attempt others now recordID playerID runID stepID req d) = d"
  using assms
  by (auto simp: Attempt_def Let_def decodeAttemptResponse_def
      split: sum.splits float64.splits if_splits option.splits)

lemma Attempt_different_key:
  assumes "validate_AttemptRequest req"
      and "runs_GetRunByID runID d = Inr run"
      and "r_PlayerID run = playerID"
      and "r_State run = RunStateActive"
      and "dungeons_GetStep (r_DungeonID run) stepID d = Inr step"
      and "bs_Order step = r_CurrentStep run"
      and "\<not> f64_gt (HaversineMeters (the (req_Lat req)) (the (req_Lon req))
                       (loc_Lat (bs_Location step)) (loc_Lon (bs_Location step)))
               (loc_RadiusMeters (bs_Location step))"
      and "runs_GetAttemptRecord runID stepID d = Inr stored"
      and "rec_IdempotencyKey stored \<noteq> []"
      and "rec_IdempotencyKey stored \<noteq> req_IdempotencyKey req"
  shows "Attempt others now recordID playerID runID stepID req d =
           (Inl (Err [''attempt already handled with another idempotency key''] ErrAlreadyHandled), d)"
  using assms by (simp add: Attempt_def Let_def)

lemma Attempt_key_mismatch_D:
  assumes "fst (Attempt others now recordID playerID runID stepID req d) = Inl key_mismatch"
  shows "\<exists>stored.
           (runs_GetAttemptRecord runID stepID d = Inr stored
            \<or> (isl (runs_GetAttemptRecord runID stepID d)
                \<and> runs_GetAttemptRecord runID stepID (others d) = Inr stored))
         \<and> rec_IdempotencyKey stored \<noteq> []
         \<and> rec_IdempotencyKey stored \<noteq> req_IdempotencyKey req"
  using assms
  by (auto simp: Attempt_def Let_def key_mismatch_def decodeAttemptResponse_def
      split: sum.splits float64.splits if_splits option.splits prod.splits
      dest: WithTransaction_Inl)

lemma apply_reward_items_frame:
  "apply_reward_items p items t d = (r, d') \<Longrightarrow>
     runs d' = runs d \<and> steps d' = steps d \<and> attempts d' = attempts d \<and> players d' = players d"
proof (induction items arbitrary: d)
  case Nil
  then show ?case by simp
next
  case (Cons item items)
  then show ?case
    by (auto simp: inventory_AddItem_def split: prod.splits sum.splits if_splits option.splits)
qed

lemma runs_GetRunByID_ID: "runs_GetRunByID runID d = Inr run \<Longrightarrow> r_ID run = runID"
  by (auto simp: runs_GetRunByID_def find_Some_iff split: option.splits)

lemma Attempt_tx_Inr_D:
  assumes "Attempt_tx now record playerID runID stepID step run stepList distance d = (Inr resp, d')"
  shows "runs d' = update_one (\<lambda>r. r_ID r = r_ID run)
                     (\<lambda>_. settle run stepID now (rec_ID record) (length stepList)) (runs d)
       \<and> find (\<lambda>r. r_ID r = r_ID run) (runs d) \<noteq> None
       \<and> steps d' = steps d
       \<and> ar_Run resp = settle run stepID now (rec_ID record) (length stepList)
       \<and> \<not> ar_Idempotency resp"
  using assms
  by (auto simp: Attempt_tx_def Let_def settle_def runs_CreateAttemptRecord_def
        players_IncrementGold_def runs_ReplaceRun_def runs_UpdateAttemptRecord_def
      split: prod.splits sum.splits if_splits option.splits
      dest!: apply_reward_items_frame)

lemma Attempt_fresh_D:
  assumes ok: "Attempt id now recordID playerID runID stepID req d = (Inr resp, d')"
      and fresh: "\<not> ar_Idempotency resp"
      and run: "runs_GetRunByID runID d = Inr run"
  shows "r_State run = RunStateActive
       \<and> r_PlayerID run = playerID
       \<and> runs_GetRunByID runID d' =
           Inr (settle run stepID now recordID
                  (length (dungeons_ListStepsByDungeon (r_DungeonID run) d)))
       \<and> steps d' = steps d"
proof -
  have rid: "r_ID run = runID" using run by (rule runs_GetRunByID_ID)
  from ok fresh run obtain step distance where
    act: "r_State run = RunStateActive" and own: "r_PlayerID run = playerID"
    and tx: "Attempt_tx now
               \<lparr>rec_ID = recordID, rec_RunID = runID, rec_StepID = stepID,
                rec_PlayerID = playerID, rec_IdempotencyKey = req_IdempotencyKey req,
                rec_RewardApplied = False, rec_Response = None, rec_CreatedAt = now\<rparr>
               playerID runID stepID step run
               (dungeons_ListStepsByDungeon (r_DungeonID run) d) distance d = (Inr resp, d')"
    by (auto simp: Attempt_def Let_def decodeAttemptResponse_def
        split: sum.splits float64.splits if_splits option.splits prod.splits
        dest!: WithTransaction_Inr)
  from Attempt_tx_Inr_D [OF tx] have
    r': "runs d' = update_one (\<lambda>r. r_ID r = r_ID run)
                     (\<lambda>_. settle run stepID now recordID
                        (length (dungeons_ListStepsByDungeon (r_DungeonID run) d))) (runs d)"
    and ex: "find (\<lambda>r. r_ID r = r_ID run) (runs d) \<noteq> None"
    and st: "steps d' = steps d"
    by simp_all
  have sid: "r_ID (settle run stepID now recordID n) = r_ID run" for n
    by (simp add: settle_def Let_def)
  have "find (\<lambda>r. r_ID r = r_ID run) (runs d') =
          Some (settle run stepID now recordID
                  (length (dungeons_ListStepsByDungeon (r_DungeonID run) d)))"
    unfolding r' using ex by (subst find_update_one_hit) (auto simp: sid)
  then show ?thesis
    using act own st rid by (simp add: runs_GetRunByID_def)
qed

lemma settle_simps [simp]:
  "r_CurrentStep (settle run stepID now recordID n) = r_CurrentStep run + 1"
  "r_KilledSteps (settle run stepID now recordID n) =
     r_KilledSteps run @ [\<lparr>ks_BossStepID = stepID, ks_KilledAt = now, ks_AttemptID = recordID\<rparr>]"
  "r_DungeonID (settle run stepID now recordID n) = r_DungeonID run"
  "r_PlayerID (settle run stepID now recordID n) = r_PlayerID run"
  "r_ID (settle run stepID now recordID n) = r_ID run"
  "r_State (settle run stepID now recordID n) =
     (if r_CurrentStep run + 1 > int n then RunStateCompleted else r_State run)"
  "r_EndedAt (settle run stepID now recordID n) =
     (if r_CurrentStep run + 1 > int n then Some now else r_EndedAt run)"
  by (simp_all add: settle_def Let_def)

lemma attempt_each_progress:
  assumes "attempt_each playerID runID calls d = Some d'"
      and "runs_GetRunByID runID d = Inr run"
  shows "\<exists>run'. runs_GetRunByID runID d' = Inr run'
           \<and> r_CurrentStep run' = r_CurrentStep run + int (length calls)
           \<and> length (r_KilledSteps run') = length (r_KilledSteps run) + length calls
           \<and> r_DungeonID run' = r_DungeonID run
           \<and> steps d' = steps d
           \<and> (calls \<noteq> [] \<longrightarrow>
                (if r_CurrentStep run' > int (length (dungeons_ListStepsByDungeon (r_DungeonID run) d))
                 then r_State run' = RunStateCompleted \<and> r_EndedAt run' \<noteq> None
                 else r_State run' = RunStateActive))"
  using assms
proof (induction calls arbitrary: d run)
  case Nil
  then show ?case by simp
next
  case (Cons c calls)
  obtain now recordID stepID req where c: "c = (now, recordID, stepID, req)"
    by (cases c) auto
  from Cons.prems(1) c obtain resp d1 where
    a: "Attempt id now recordID playerID runID stepID req d = (Inr resp, d1)"
    and f: "\<not> ar_Idempotency resp"
    and rest: "attempt_each playerID runID calls d1 = Some d'"
    by (auto split: prod.splits sum.splits if_splits)
  let ?n = "length (dungeons_ListStepsByDungeon (r_DungeonID run) d)"
  let ?run1 = "settle run stepID now recordID ?n"
  from Attempt_fresh_D [OF a f Cons.prems(2)] have
    act: "r_State run = RunStateActive"
    and g1: "runs_GetRunByID runID d1 = Inr ?run1"
    and st: "steps d1 = steps d"
    by simp_all
  from Cons.IH [OF rest g1] obtain run' where h:
    "runs_GetRunByID runID d' = Inr run'
     \<and> r_CurrentStep run' = r_CurrentStep ?run1 + int (length calls)
     \<and> length (r_KilledSteps run') = length (r_KilledSteps ?run1) + length calls
     \<and> r_DungeonID run' = r_DungeonID ?run1
     \<and> steps d' = steps d1
     \<and> (calls \<noteq> [] \<longrightarrow>
                (if r_CurrentStep run' > int (length (dungeons_ListStepsByDungeon (r_DungeonID ?run1) d1))
                 then r_State run' = RunStateCompleted \<and> r_EndedAt run' \<noteq> None
                 else r_State run' = RunStateActive))"
    by (rule exE)
  from h have g': "runs_GetRunByID runID d' = Inr run'" by (rule conjunct1)
  from h have cs: "r_CurrentStep run' = r_CurrentStep run + 1 + int (length calls)" by simp
  from h have ks: "length (r_KilledSteps run') = length (r_KilledSteps run) + 1 + length calls"
    by simp
  from h have di: "r_DungeonID run' = r_DungeonID run" by simp
  from h have st': "steps d' = steps d1" by simp
  from h have fin: "calls \<noteq> [] \<longrightarrow>
                (if r_CurrentStep run' > int (length (dungeons_ListStepsByDungeon (r_DungeonID ?run1) d1))
                 then r_State run' = RunStateCompleted \<and> r_EndedAt run' \<noteq> None
                 else r_State run' = RunStateActive)"
    by (elim conjE)
  have n1: "length (dungeons_ListStepsByDungeon (r_DungeonID ?run1) d1) = ?n"
    using st by (simp add: dungeons_ListStepsByDungeon_def)
  show ?case
  proof (cases "calls = []")
    case True
    with rest have dd: "d' = d1" by simp
    with g1 g' have "run' = ?run1" by simp
    then show ?thesis
      using g' st act True dd by simp
  next
    case False
    with fin n1 have "if r_CurrentStep run' > int ?n
                 then r_State run' = RunStateCompleted \<and> r_EndedAt run' \<noteq> None
                 else r_State run' = RunStateActive" by simp
    then show ?thesis
      using g' cs ks di st st' by simp
  qed
qed

lemma Attempt_wrong_step_order:
  assumes "validate_AttemptRequest req"
      and "runs_GetRunByID runID d = Inr run"
      and "r_PlayerID run = playerID"
      and "r_State run = RunStateActive"
      and "dungeons_GetStep (r_DungeonID run) stepID d = Inr step"
      and "bs_Order step \<noteq> r_CurrentStep run"
  shows "\<exists>e. Attempt others now recordID playerID runID stepID req d = (Inl e, d)
             \<and> errors_Is e ErrWrongStepOrder"
  using assms by (simp add: Attempt_def errors_Is_def)

lemma Attempt_fresh_step_D:
  assumes "Attempt others now recordID playerID runID stepID req d = (Inr resp, d')"
      and "\<not> ar_Idempotency resp"
  shows "validate_AttemptRequest req
       \<and> (\<exists>run step. runs_GetRunByID runID d = Inr run
             \<and> dungeons_GetStep (r_DungeonID run) stepID d = Inr step
             \<and> bs_Order step = r_CurrentStep run)"
  using assms
  by (auto simp: Attempt_def Let_def decodeAttemptResponse_def
      split: sum.splits float64.splits if_splits option.splits prod.splits)

lemma repeat_after_settlement_fails:
  assumes ok: "Attempt id now recordID playerID runID stepID req d = (Inr resp, d')"
      and fresh: "\<not> ar_Idempotency resp"
      and v': "validate_AttemptRequest req'"
  shows "\<exists>e. Attempt others now' recordID' playerID runID stepID req' d' = (Inl e, d')
             \<and> (errors_Is e ErrWrongStepOrder \<or> errors_Is e ErrConflict)"
proof -
  from Attempt_fresh_step_D [OF ok fresh] obtain run step where
    run: "runs_GetRunByID runID d = Inr run"
    and step: "dungeons_GetStep (r_DungeonID run) stepID d = Inr step"
    and ord: "bs_Order step = r_CurrentStep run"
    by blast
  let ?run' = "settle run stepID now recordID
                 (length (dungeons_ListStepsByDungeon (r_DungeonID run) d))"
  from Attempt_fresh_D [OF ok fresh run] have
    act: "r_State run = RunStateActive" and own: "r_PlayerID run = playerID"
    and run': "runs_GetRunByID runID d' = Inr ?run'"
    and st: "steps d' = steps d"
    by simp_all
  have step': "dungeons_GetStep (r_DungeonID ?run') stepID d' = Inr step"
    using step st by (simp add: dungeons_GetStep_def)
  show ?thesis
  proof (cases "r_State ?run' = RunStateActive")
    case True
    have own': "r_PlayerID ?run' = playerID" using own by simp
    have "bs_Order step \<noteq> r_CurrentStep ?run'" using ord by simp
    from Attempt_wrong_step_order [OF v' run' own' True step' this]
    show ?thesis by blast
  next
    case False
    then show ?thesis
      using v' run' own by (auto simp: Attempt_def errors_Is_def)
  qed
qed

section \<open>Marketplace claims\<close>

text \<open>
  Claim C3 does not hold on the code. The total is computed as
  \<open>req.Qty * listing.PricePerUnit\<close> in \<open>int64\<close>, and nothing checks the product for
  overflow. On a listing of four swords at \<open>2 ^ 62\<close> gold each, a buyer who owns 7 gold
  buys all four: the total is \<open>2 ^ 64\<close> as an integer and 0 in \<open>int64\<close>, so the buy
  succeeds, the buyer's balance stays 7 and the seller's stays 5, the buyer receives the
  four swords, and the receipt records the total price 0. Lemma
  \<open>Buy_transfers_wrapped_total\<close> states what every successful buy does: the balances
  move by the product modulo \<open>2 ^ 64\<close>; lemma \<open>Buy_transfers_integer_total\<close> that they
  move by the integer \<open>q * p\<close> when nothing overflows; lemma \<open>Buy_error_unchanged\<close>
  that a failing buy leaves the datastore as it was.
\<close>

theorem buy_total_overflow_buyer_pays_nothing:
  "sint (blr_Qty \<lparr>blr_Qty = 4\<rparr>) * sint (l_PricePerUnit example_overflow_listing) = 2 ^ 64
   \<and> Buy 1 1 ''t1'' ''poor'' ''l2'' \<lparr>blr_Qty = 4\<rparr> example_overflow_market =
       (Inr (example_overflow_listing
               \<lparr>l_Status := ListingStatusSold, l_BuyerID := ''poor'', l_Qty := 0\<rparr>),
        example_overflow_market
          \<lparr>players :=
            [\<lparr>p_ID = ''buyer'', p_DisplayName = ''B'', p_Gold = 100, p_CreatedAt = 0,
              p_UpdatedAt = 0, p_Email = ''b@x'', p_PasswordHash = [], p_Role = ''player''\<rparr>,
             \<lparr>p_ID = ''seller'', p_DisplayName = ''S'', p_Gold = 5, p_CreatedAt = 0,
              p_UpdatedAt = 1, p_Email = ''s@x'', p_PasswordHash = [], p_Role = ''player''\<rparr>,
             \<lparr>p_ID = ''poor'', p_DisplayName = ''P'', p_Gold = 7, p_CreatedAt = 0,
              p_UpdatedAt = 1, p_Email = ''p@x'', p_PasswordHash = [], p_Role = ''player''\<rparr>],
           inventory :=
            [\<lparr>ie_ID = ''poor:sword'', ie_PlayerID = ''poor'', ie_ItemID = ''sword'',
              ie_Qty = 4, ie_UpdatedAt = 1\<rparr>],
           listings :=
            [example_overflow_listing
               \<lparr>l_Status := ListingStatusSold, l_BuyerID := ''poor'', l_Qty := 0\<rparr>],
           trades :=
            [\<lparr>t_ID = ''t1'', t_BuyerID = ''poor'', t_SellerID = ''seller'',
              t_ListingID = ''l2'', t_ItemID = ''sword'', t_Qty = 4, t_TotalPrice = 0,
              t_CreatedAt = 1\<rparr>]\<rparr>)"
  by (simp add: buy_defs example_overflow_market_def example_market_def
        example_overflow_listing_def Let_def)

text \<open>
  Claim C4 does not hold on the code, for the same unchecked product. On the same
  listing the buyer who owns 7 gold asks for three swords. The total is \<open>3 * 2 ^ 62\<close>,
  far above the balance, so the claim has the buy rejected with \<open>ErrInsufficient\<close> and
  nothing changed. In \<open>int64\<close> the product is \<open>- (2 ^ 62)\<close>, the test
  \<open>buyer.Gold < totalPrice\<close> is false, and the buy succeeds: the buyer's balance rises
  to \<open>7 + 2 ^ 62\<close>, the seller's falls to \<open>5 - 2 ^ 62\<close>, and the listing keeps one sword.
  Lemmas \<open>Buy_conflict\<close>, \<open>Buy_insufficient\<close>, \<open>Buy_insufficient_integer\<close> and
  \<open>Buy_error_unchanged\<close> state what holds: the four conflicts, the rejection when the
  balance is below the product modulo \<open>2 ^ 64\<close>, hence below the integer \<open>q * p\<close> when
  the product does not overflow, and that a failing buy returns the datastore unchanged.
\<close>

theorem buy_total_overflow_not_rejected:
  "(\<exists>b. players_GetByID ''poor'' example_overflow_market = Inr b
        \<and> sint (p_Gold b) = 7
        \<and> sint (p_Gold b)
            < sint (blr_Qty \<lparr>blr_Qty = 3\<rparr>) * sint (l_PricePerUnit example_overflow_listing))
   \<and> fst (Buy 1 1 ''t1'' ''poor'' ''l2'' \<lparr>blr_Qty = 3\<rparr> example_overflow_market) =
       Inr (example_overflow_listing\<lparr>l_Qty := 1\<rparr>)
   \<and> (\<exists>b'. players_GetByID ''poor''
               (snd (Buy 1 1 ''t1'' ''poor'' ''l2'' \<lparr>blr_Qty = 3\<rparr> example_overflow_market)) = Inr b'
        \<and> sint (p_Gold b') = 7 + 2 ^ 62)
   \<and> (\<exists>s'. players_GetByID ''seller''
               (snd (Buy 1 1 ''t1'' ''poor'' ''l2'' \<lparr>blr_Qty = 3\<rparr> example_overflow_market)) = Inr s'
        \<and> sint (p_Gold s') = 5 - 2 ^ 62)"
  by (simp add: buy_defs example_overflow_market_def example_market_def
        example_overflow_listing_def Let_def)

text \<open>
  Claim C7. For a successful buy: when the purchased quantity equals the listing's
  quantity, the returned listing has status sold, the buyer recorded and quantity zero;
  when it is strictly less, the returned listing's quantity is the previous quantity
  minus the purchased one and its status is still active. No other case exists (the
  purchased quantity never exceeds the listing's), and the returned listing is the one
  stored.
\<close>

theorem buy_full_fill_sold_partial_fill_active:
  assumes "Buy t_check now tradeID buyerID listingID req d = (Inr out, d')"
      and "auction_GetByID listingID d = Inr listing"
  shows "(blr_Qty req = l_Qty listing \<longrightarrow>
            l_Status out = ListingStatusSold \<and> l_BuyerID out = buyerID \<and> l_Qty out = 0)
       \<and> (sint (blr_Qty req) < sint (l_Qty listing) \<longrightarrow>
            l_Qty out = l_Qty listing - blr_Qty req \<and> l_Status out = ListingStatusActive)
       \<and> sint (blr_Qty req) \<le> sint (l_Qty listing)
       \<and> auction_GetByID listingID d' = Inr out"
proof -
  from Buy_Inr_D [OF assms(1)] assms(2) have
    act: "l_Status listing = ListingStatusActive"
    and le: "sint (blr_Qty req) \<le> sint (l_Qty listing)"
    and tx: "Buy_tx now tradeID buyerID listing req (blr_Qty req * l_PricePerUnit listing) d = (Inr out, d')"
    by auto
  have lid: "l_ID listing = listingID"
    using assms(2) by (auto simp: auction_GetByID_def find_Some_iff split: option.splits)
  define l' where "l' = (if blr_Qty req = l_Qty listing
               then listing\<lparr>l_Status := ListingStatusSold, l_BuyerID := buyerID, l_Qty := 0\<rparr>
               else listing\<lparr>l_Qty := l_Qty listing - blr_Qty req\<rparr>)"
  have lid': "l_ID l' = listingID" using lid by (simp add: l'_def)
  from Buy_tx_Inr_D [OF tx] obtain b d1 d2 d3 d4 pb ps where
    b: "players_GetByID buyerID d = Inr b"
    and s4: "auction_ReplaceListing l' d3 = (Inr out, d4)"
    and s5: "auction_InsertTrade
              \<lparr>t_ID = tradeID, t_BuyerID = buyerID, t_SellerID = l_SellerID listing,
               t_ListingID = l_ID listing, t_ItemID = l_ItemID listing,
               t_Qty = blr_Qty req, t_TotalPrice = blr_Qty req * l_PricePerUnit listing, t_CreatedAt = now\<rparr> d4 = (Inr (), d')"
    unfolding l'_def by blast
  have out: "out = l'" using auction_ReplaceListing_Inr [OF s4] by simp
  have l4: "listings d4 = update_one (\<lambda>x. l_ID x = l_ID l') (\<lambda>_. l') (listings d3)"
    using auction_ReplaceListing_Inr [OF s4] by simp
  have f3: "find (\<lambda>x. l_ID x = l_ID l') (listings d3) \<noteq> None"
    using s4 by (auto simp: auction_ReplaceListing_def split: option.splits)
  have "find (\<lambda>x. l_ID x = l_ID l') (listings d4) = Some l'"
    unfolding l4 using f3 by (subst find_update_one_hit) auto
  moreover have "listings d' = listings d4"
    using auction_InsertTrade_Inr [OF s5] by simp
  ultimately have get: "auction_GetByID listingID d' = Inr out"
    unfolding out using lid' by (simp add: auction_GetByID_def)
  have ne: "sint (blr_Qty req) < sint (l_Qty listing) \<Longrightarrow> blr_Qty req \<noteq> l_Qty listing"
    by auto
  show ?thesis
    using act le get ne unfolding out l'_def by auto
qed

theorem buy_full_fill_sold_partial_fill_active_witness:
  "l_Qty (example_listing\<lparr>l_Qty := 1\<rparr>) = 3 - 2
   \<and> l_Status (example_listing\<lparr>l_Qty := 1\<rparr>) = ListingStatusActive
   \<and> auction_GetByID ''l1'' example_market_after = Inr (example_listing\<lparr>l_Qty := 1\<rparr>)
   \<and> (\<exists>out. fst (Buy 1 1 ''t1'' ''buyer'' ''l1'' \<lparr>blr_Qty = 3\<rparr> example_market) = Inr out
         \<and> l_Status out = ListingStatusSold \<and> l_BuyerID out = ''buyer'' \<and> l_Qty out = 0)"
proof -
  have g: "auction_GetByID ''l1'' example_market = Inr example_listing"
    by (simp add: auction_GetByID_def example_market_def example_listing_def)
  have part: "Buy 1 1 ''t1'' ''buyer'' ''l1'' \<lparr>blr_Qty = 2\<rparr> example_market =
                (Inr (example_listing\<lparr>l_Qty := 1\<rparr>), example_market_after)"
    using example_buy by (simp add: example_listing_def)
  have fullf: "fst (Buy 1 1 ''t1'' ''buyer'' ''l1'' \<lparr>blr_Qty = 3\<rparr> example_market) =
                 Inr (example_listing\<lparr>l_Status := ListingStatusSold, l_BuyerID := ''buyer'',
                                      l_Qty := 0\<rparr>)"
    by (simp add: buy_defs example_market_def example_listing_def Let_def)
  have full: "Buy 1 1 ''t1'' ''buyer'' ''l1'' \<lparr>blr_Qty = 3\<rparr> example_market =
                (Inr (example_listing\<lparr>l_Status := ListingStatusSold, l_BuyerID := ''buyer'',
                                      l_Qty := 0\<rparr>),
                 snd (Buy 1 1 ''t1'' ''buyer'' ''l1'' \<lparr>blr_Qty = 3\<rparr> example_market))"
    using fullf by (simp add: prod_eq_iff)
  from buy_full_fill_sold_partial_fill_active [OF part g]
  have p: "l_Qty (example_listing\<lparr>l_Qty := 1\<rparr>) = 3 - 2
     \<and> l_Status (example_listing\<lparr>l_Qty := 1\<rparr>) = ListingStatusActive
     \<and> auction_GetByID ''l1'' example_market_after = Inr (example_listing\<lparr>l_Qty := 1\<rparr>)"
    by (simp add: example_listing_def)
  from buy_full_fill_sold_partial_fill_active [OF full g]
  have f: "\<exists>out. fst (Buy 1 1 ''t1'' ''buyer'' ''l1'' \<lparr>blr_Qty = 3\<rparr> example_market) = Inr out
         \<and> l_Status out = ListingStatusSold \<and> l_BuyerID out = ''buyer'' \<and> l_Qty out = 0"
    using fullf by (simp add: example_listing_def)
  from p f show ?thesis by simp
qed

section \<open>Run progression claims\<close>

text \<open>
  Claim C5. For an attempt (with a request that passes validation) on an active run
  owned by the caller, if the targeted step exists in the run's dungeon and its order
  differs from the run's current step, ahead or behind, the attempt fails with
  \<open>ErrWrongStepOrder\<close> and the datastore is unchanged. Nothing is assumed about the
  submitted position: the result does not depend on the geofence, nor on what other
  requests do.
\<close>

theorem wrong_step_order_rejected:
  assumes "validate_AttemptRequest req"
      and "runs_GetRunByID runID d = Inr run"
      and "r_PlayerID run = playerID"
      and "r_State run = RunStateActive"
      and "dungeons_GetStep (r_DungeonID run) stepID d = Inr step"
      and "bs_Order step \<noteq> r_CurrentStep run"
  shows "\<exists>e. Attempt others now recordID playerID runID stepID req d = (Inl e, d)
             \<and> errors_Is e ErrWrongStepOrder"
  using assms by (rule Attempt_wrong_step_order)

theorem wrong_step_order_rejected_witness:
  "\<exists>e. Attempt id 10 ''a-1'' ''p-1'' ''run-1'' ''s-2'' example_request example_world =
          (Inl e, example_world)
       \<and> errors_Is e ErrWrongStepOrder"
proof -
  have v: "validate_AttemptRequest example_request"
    by (simp add: validate_AttemptRequest_def example_request_def)
  have r: "runs_GetRunByID ''run-1'' example_world = Inr example_run"
    by (simp add: runs_GetRunByID_def example_defs)
  have s: "dungeons_GetStep (r_DungeonID example_run) ''s-2'' example_world = Inr example_step2"
    by (simp add: dungeons_GetStep_def example_defs)
  show ?thesis
    by (rule wrong_step_order_rejected [OF v r _ _ s]) (simp_all add: example_defs)
qed

text \<open>
  Claim C6 does not hold on the code. The check is \<open>distance > radius\<close>, which is false
  when the distance is NaN, and neither the request nor the step is checked for the range
  of its coordinates. A step stored with longitude \<open>-math.MaxFloat64\<close> and a request
  with longitude \<open>math.MaxFloat64\<close> make \<open>lon2 - lon1\<close> overflow to minus infinity, whose
  sine is NaN, and so is the distance. The distance is not less than or equal to the
  radius of 100 metres, yet the attempt is admitted: the step is settled, the reward
  paid and the run advanced. Lemmas \<open>Attempt_not_in_range\<close> and
  \<open>Attempt_in_range_admitted\<close> state what holds of every attempt that reaches the check:
  it fails with \<open>ErrNotInRange\<close> and an unchanged datastore when \<open>distance > radius\<close> is
  true, and never with \<open>ErrNotInRange\<close> when it is false.
\<close>

theorem geofence_admits_nan_distance:
  "\<not> f64_le (HaversineMeters (the (req_Lat example_overflow_request))
                 (the (req_Lon example_overflow_request))
                 (loc_Lat (bs_Location example_overflow_step))
                 (loc_Lon (bs_Location example_overflow_step)))
        (loc_RadiusMeters (bs_Location example_overflow_step))
   \<and> fst (Attempt id 10 ''a-1'' ''p-1'' ''run-1'' ''s-1'' example_overflow_request
            example_overflow_world) =
       Inr \<lparr>ar_RunID = ''run-1'', ar_StepID = ''s-1'', ar_DistanceM = NaN,
            ar_Rewards = bs_Rewards example_step1,
            ar_Run = example_run
              \<lparr>r_CurrentStep := 2,
               r_KilledSteps := [\<lparr>ks_BossStepID = ''s-1'', ks_KilledAt = 10,
                                  ks_AttemptID = ''a-1''\<rparr>],
               r_UpdatedAt := 10\<rparr>,
            ar_Player = example_player\<lparr>p_Gold := 55, p_UpdatedAt := 10\<rparr>,
            ar_Idempotency = False\<rparr>
   \<and> runs_GetRunByID ''run-1''
        (snd (Attempt id 10 ''a-1'' ''p-1'' ''run-1'' ''s-1'' example_overflow_request
                example_overflow_world)) =
       Inr (example_run
              \<lparr>r_CurrentStep := 2,
               r_KilledSteps := [\<lparr>ks_BossStepID = ''s-1'', ks_KilledAt = 10,
                                  ks_AttemptID = ''a-1''\<rparr>],
               r_UpdatedAt := 10\<rparr>)
   \<and> players_GetByID ''p-1''
        (snd (Attempt id 10 ''a-1'' ''p-1'' ''run-1'' ''s-1'' example_overflow_request
                example_overflow_world)) =
       Inr (example_player\<lparr>p_Gold := 55, p_UpdatedAt := 10\<rparr>)"
  by (simp add: attempt_defs example_defs example_overflow_defs HaversineMeters_overflow
        players_GetByID_def)

text \<open>
  Claim C8. Start from a fresh run on a dungeon with \<open>n > 0\<close> steps and let \<open>n\<close>
  calls of \<open>Attempt\<close> follow one another, each of them settling its step (the order
  check makes them the steps 1 to \<open>n\<close> in order). Then the run is completed, its current
  step is \<open>n + 1\<close>, it has an end time and \<open>n\<close> killed-step entries. Moreover every
  settlement, on any datastore, advances the current step by exactly one and appends
  exactly one killed-step entry. (A published dungeon has at least one step; with no
  step there is no settlement that could complete the run.)
\<close>

theorem completing_every_step_completes_run:
  assumes "runs_GetRunByID runID d = Inr run"
      and "fresh_run run"
      and "length calls = length (dungeons_ListStepsByDungeon (r_DungeonID run) d)"
      and "calls \<noteq> []"
      and "attempt_each playerID runID calls d = Some d'"
  shows "(\<exists>run'. runs_GetRunByID runID d' = Inr run'
            \<and> r_State run' = RunStateCompleted
            \<and> r_CurrentStep run' =
                int (length (dungeons_ListStepsByDungeon (r_DungeonID run) d)) + 1
            \<and> r_EndedAt run' \<noteq> None
            \<and> length (r_KilledSteps run') =
                length (dungeons_ListStepsByDungeon (r_DungeonID run) d))
       \<and> (\<forall>now recordID stepID req d0 run0 resp d1.
             runs_GetRunByID runID d0 = Inr run0
             \<and> Attempt id now recordID playerID runID stepID req d0 = (Inr resp, d1)
             \<and> \<not> ar_Idempotency resp
            \<longrightarrow> (\<exists>run1. runs_GetRunByID runID d1 = Inr run1
                   \<and> r_CurrentStep run1 = r_CurrentStep run0 + 1
                   \<and> r_KilledSteps run1 = r_KilledSteps run0 @
                        [\<lparr>ks_BossStepID = stepID, ks_KilledAt = now,
                          ks_AttemptID = recordID\<rparr>]))"
proof (intro conjI allI impI)
  from attempt_each_progress [OF assms(5) assms(1)] obtain run' where h:
    "runs_GetRunByID runID d' = Inr run'
     \<and> r_CurrentStep run' = r_CurrentStep run + int (length calls)
     \<and> length (r_KilledSteps run') = length (r_KilledSteps run) + length calls
     \<and> r_DungeonID run' = r_DungeonID run
     \<and> steps d' = steps d
     \<and> (calls \<noteq> [] \<longrightarrow>
          (if r_CurrentStep run' > int (length (dungeons_ListStepsByDungeon (r_DungeonID run) d))
           then r_State run' = RunStateCompleted \<and> r_EndedAt run' \<noteq> None
           else r_State run' = RunStateActive))"
    by (rule exE)
  with assms(2,3,4) have
    "runs_GetRunByID runID d' = Inr run'
            \<and> r_State run' = RunStateCompleted
            \<and> r_CurrentStep run' =
                int (length (dungeons_ListStepsByDungeon (r_DungeonID run) d)) + 1
            \<and> r_EndedAt run' \<noteq> None
            \<and> length (r_KilledSteps run') =
                length (dungeons_ListStepsByDungeon (r_DungeonID run) d)"
    by (simp add: fresh_run_def)
  then show "\<exists>run'. runs_GetRunByID runID d' = Inr run'
            \<and> r_State run' = RunStateCompleted
            \<and> r_CurrentStep run' =
                int (length (dungeons_ListStepsByDungeon (r_DungeonID run) d)) + 1
            \<and> r_EndedAt run' \<noteq> None
            \<and> length (r_KilledSteps run') =
                length (dungeons_ListStepsByDungeon (r_DungeonID run) d)"
    by (rule exI)
next
  fix now recordID stepID req d0 run0 resp d1
  assume a: "runs_GetRunByID runID d0 = Inr run0
             \<and> Attempt id now recordID playerID runID stepID req d0 = (Inr resp, d1)
             \<and> \<not> ar_Idempotency resp"
  then have "runs_GetRunByID runID d1 =
               Inr (settle run0 stepID now recordID
                     (length (dungeons_ListStepsByDungeon (r_DungeonID run0) d0)))"
    using Attempt_fresh_D [of now recordID playerID runID stepID req d0 resp d1 run0] by simp
  then show "\<exists>run1. runs_GetRunByID runID d1 = Inr run1
                   \<and> r_CurrentStep run1 = r_CurrentStep run0 + 1
                   \<and> r_KilledSteps run1 = r_KilledSteps run0 @
                        [\<lparr>ks_BossStepID = stepID, ks_KilledAt = now,
                          ks_AttemptID = recordID\<rparr>]"
    by simp
qed

theorem completing_every_step_completes_run_witness:
  "(\<exists>d'. attempt_each ''p-1'' ''run-1'' example_calls example_world = Some d'
      \<and> (\<exists>run'. runs_GetRunByID ''run-1'' d' = Inr run'
            \<and> r_State run' = RunStateCompleted
            \<and> r_CurrentStep run' = 2 + 1
            \<and> r_EndedAt run' \<noteq> None
            \<and> length (r_KilledSteps run') = 2))
   \<and> (\<exists>run1. runs_GetRunByID ''run-1'' example_world_after_step1 = Inr run1
         \<and> r_CurrentStep run1 = 1 + 1
         \<and> r_KilledSteps run1 =
             [\<lparr>ks_BossStepID = ''s-1'', ks_KilledAt = 10, ks_AttemptID = ''a-1''\<rparr>])"
proof -
  have r: "runs_GetRunByID ''run-1'' example_world = Inr example_run"
    by (simp add: runs_GetRunByID_def example_defs)
  have f: "fresh_run example_run"
    by (simp add: fresh_run_def example_defs)
  have n: "length (dungeons_ListStepsByDungeon (r_DungeonID example_run) example_world) = 2"
    by (simp add: dungeons_ListStepsByDungeon_def example_defs)
  have l: "length example_calls
             = length (dungeons_ListStepsByDungeon (r_DungeonID example_run) example_world)"
    using n by (simp add: example_calls_def)
  have ne: "example_calls \<noteq> []" by (simp add: example_calls_def)
  have ev: "attempt_each ''p-1'' ''run-1'' example_calls example_world \<noteq> None"
    by (simp add: example_calls_def attempt_defs example_defs)
  then obtain d' where e: "attempt_each ''p-1'' ''run-1'' example_calls example_world = Some d'"
    by blast
  have a1: "Attempt id 10 ''a-1'' ''p-1'' ''run-1'' ''s-1'' example_request example_world =
              (Inr \<lparr>ar_RunID = ''run-1'', ar_StepID = ''s-1'', ar_DistanceM = Finite 0,
                    ar_Rewards = bs_Rewards example_step1,
                    ar_Run = example_run
                      \<lparr>r_CurrentStep := 2,
                       r_KilledSteps := [\<lparr>ks_BossStepID = ''s-1'', ks_KilledAt = 10,
                                          ks_AttemptID = ''a-1''\<rparr>],
                       r_UpdatedAt := 10\<rparr>,
                    ar_Player = example_player\<lparr>p_Gold := 55, p_UpdatedAt := 10\<rparr>,
                    ar_Idempotency = False\<rparr>, example_world_after_step1)"
    by (simp add: example_world_after_step1_def attempt_defs example_defs)
  note t = completing_every_step_completes_run [OF r f l ne e]
  from t n e have 1: "\<exists>d'. attempt_each ''p-1'' ''run-1'' example_calls example_world = Some d'
      \<and> (\<exists>run'. runs_GetRunByID ''run-1'' d' = Inr run'
            \<and> r_State run' = RunStateCompleted
            \<and> r_CurrentStep run' = 2 + 1
            \<and> r_EndedAt run' \<noteq> None
            \<and> length (r_KilledSteps run') = 2)"
    by simp
  from t have "\<forall>now recordID stepID req d0 run0 resp d1.
             runs_GetRunByID ''run-1'' d0 = Inr run0
             \<and> Attempt id now recordID ''p-1'' ''run-1'' stepID req d0 = (Inr resp, d1)
             \<and> \<not> ar_Idempotency resp
            \<longrightarrow> (\<exists>run1. runs_GetRunByID ''run-1'' d1 = Inr run1
                   \<and> r_CurrentStep run1 = r_CurrentStep run0 + 1
                   \<and> r_KilledSteps run1 = r_KilledSteps run0 @
                        [\<lparr>ks_BossStepID = stepID, ks_KilledAt = now,
                          ks_AttemptID = recordID\<rparr>])"
    by (rule conjunct2)
  from this [rule_format, OF conjI [OF r conjI [OF a1]]]
  have 2: "\<exists>run1. runs_GetRunByID ''run-1'' example_world_after_step1 = Inr run1
         \<and> r_CurrentStep run1 = 1 + 1
         \<and> r_KilledSteps run1 =
             [\<lparr>ks_BossStepID = ''s-1'', ks_KilledAt = 10, ks_AttemptID = ''a-1''\<rparr>]"
    by (simp add: example_defs)
  from 1 2 show ?thesis by (rule conjI)
qed

text \<open>
  Claim C10. When the attempt record that the service reads for (run, step) has the
  empty string as its stored idempotency key, the call is never rejected for a key
  mismatch, whatever key the request carries: neither when the record is found by the
  look-up, nor when it is found by the read-back after a duplicate insert (the record
  that another request committed in between). Conversely a rejection for a key mismatch
  only happens on one of these two paths with a stored key that is non-empty and
  different from the request's.
\<close>

theorem key_mismatch_only_for_nonempty_stored_key:
  "(\<forall>stored. runs_GetAttemptRecord runID stepID d = Inr stored
              \<and> rec_IdempotencyKey stored = []
      \<longrightarrow> fst (Attempt others now recordID playerID runID stepID req d) \<noteq> Inl key_mismatch)
   \<and> (\<forall>stored. isl (runs_GetAttemptRecord runID stepID d)
              \<and> runs_GetAttemptRecord runID stepID (others d) = Inr stored
              \<and> rec_IdempotencyKey stored = []
      \<longrightarrow> fst (Attempt others now recordID playerID runID stepID req d) \<noteq> Inl key_mismatch)
   \<and> (fst (Attempt others now recordID playerID runID stepID req d) = Inl key_mismatch
      \<longrightarrow> (\<exists>stored.
            (runs_GetAttemptRecord runID stepID d = Inr stored
             \<or> (isl (runs_GetAttemptRecord runID stepID d)
                 \<and> runs_GetAttemptRecord runID stepID (others d) = Inr stored))
            \<and> rec_IdempotencyKey stored \<noteq> []
            \<and> rec_IdempotencyKey stored \<noteq> req_IdempotencyKey req))"
proof (intro conjI allI impI)
  fix stored
  assume a: "runs_GetAttemptRecord runID stepID d = Inr stored \<and> rec_IdempotencyKey stored = []"
  show "fst (Attempt others now recordID playerID runID stepID req d) \<noteq> Inl key_mismatch"
  proof
    assume "fst (Attempt others now recordID playerID runID stepID req d) = Inl key_mismatch"
    from Attempt_key_mismatch_D [OF this] a show False by auto
  qed
next
  fix stored
  assume a: "isl (runs_GetAttemptRecord runID stepID d)
              \<and> runs_GetAttemptRecord runID stepID (others d) = Inr stored
              \<and> rec_IdempotencyKey stored = []"
  show "fst (Attempt others now recordID playerID runID stepID req d) \<noteq> Inl key_mismatch"
  proof
    assume "fst (Attempt others now recordID playerID runID stepID req d) = Inl key_mismatch"
    from Attempt_key_mismatch_D [OF this] a show False by auto
  qed
next
  assume "fst (Attempt others now recordID playerID runID stepID req d) = Inl key_mismatch"
  then show "\<exists>stored.
            (runs_GetAttemptRecord runID stepID d = Inr stored
             \<or> (isl (runs_GetAttemptRecord runID stepID d)
                 \<and> runs_GetAttemptRecord runID stepID (others d) = Inr stored))
            \<and> rec_IdempotencyKey stored \<noteq> []
            \<and> rec_IdempotencyKey stored \<noteq> req_IdempotencyKey req"
    by (rule Attempt_key_mismatch_D)
qed

theorem key_mismatch_only_for_nonempty_stored_key_witness:
  "fst (Attempt id 20 ''a-2'' ''p-1'' ''run-1'' ''s-1'' example_request example_legacy_world)
     = Inr ((read_back example_stored_response)\<lparr>ar_Idempotency := True\<rparr>)
   \<and> fst (Attempt example_concurrent_insert 20 ''a-2'' ''p-1'' ''run-1'' ''s-1''
            example_request example_world)
     = Inr ((read_back example_stored_response)\<lparr>ar_Idempotency := True\<rparr>)
   \<and> fst (Attempt id 20 ''a-2'' ''p-1'' ''run-1'' ''s-1'' example_request example_claimed_world)
     = Inl key_mismatch
   \<and> (\<exists>stored. runs_GetAttemptRecord ''run-1'' ''s-1'' example_claimed_world = Inr stored
         \<and> rec_IdempotencyKey stored \<noteq> []
         \<and> rec_IdempotencyKey stored \<noteq> req_IdempotencyKey example_request)"
proof -
  have l: "runs_GetAttemptRecord ''run-1'' ''s-1'' example_legacy_world = Inr example_legacy_record
           \<and> rec_IdempotencyKey example_legacy_record = []"
    by (simp add: runs_GetAttemptRecord_def example_record_defs example_defs)
  have c: "isl (runs_GetAttemptRecord ''run-1'' ''s-1'' example_world)
           \<and> runs_GetAttemptRecord ''run-1'' ''s-1'' (example_concurrent_insert example_world)
               = Inr example_legacy_record
           \<and> rec_IdempotencyKey example_legacy_record = []"
    by (simp add: runs_GetAttemptRecord_def example_record_defs example_defs)
  have m: "fst (Attempt id 20 ''a-2'' ''p-1'' ''run-1'' ''s-1'' example_request example_claimed_world)
             = Inl key_mismatch"
    by (simp add: attempt_defs example_defs example_record_defs key_mismatch_def)
  have e1: "fst (Attempt id 20 ''a-2'' ''p-1'' ''run-1'' ''s-1'' example_request example_legacy_world)
     = Inr ((read_back example_stored_response)\<lparr>ar_Idempotency := True\<rparr>)"
    by (simp add: attempt_defs example_defs example_record_defs)
  have e2: "fst (Attempt example_concurrent_insert 20 ''a-2'' ''p-1'' ''run-1'' ''s-1''
            example_request example_world)
     = Inr ((read_back example_stored_response)\<lparr>ar_Idempotency := True\<rparr>)"
    by (simp add: attempt_defs example_defs example_record_defs)
  note t1 = key_mismatch_only_for_nonempty_stored_key
              [where runID = "''run-1''" and stepID = "''s-1''" and d = example_legacy_world
                 and others = id and now = 20 and recordID = "''a-2''" and playerID = "''p-1''"
                 and req = example_request]
  note t2 = key_mismatch_only_for_nonempty_stored_key
              [where runID = "''run-1''" and stepID = "''s-1''" and d = example_world
                 and others = example_concurrent_insert and now = 20 and recordID = "''a-2''"
                 and playerID = "''p-1''" and req = example_request]
  note t3 = key_mismatch_only_for_nonempty_stored_key
              [where runID = "''run-1''" and stepID = "''s-1''" and d = example_claimed_world
                 and others = id and now = 20 and recordID = "''a-2''" and playerID = "''p-1''"
                 and req = example_request]
  from t1 l have n1: "fst (Attempt id 20 ''a-2'' ''p-1'' ''run-1'' ''s-1'' example_request
                            example_legacy_world) \<noteq> Inl key_mismatch"
    by blast
  from t2 c have n2: "fst (Attempt example_concurrent_insert 20 ''a-2'' ''p-1'' ''run-1'' ''s-1''
                            example_request example_world) \<noteq> Inl key_mismatch"
    by blast
  from t3 m have n3: "\<exists>stored. runs_GetAttemptRecord ''run-1'' ''s-1'' example_claimed_world = Inr stored
         \<and> rec_IdempotencyKey stored \<noteq> []
         \<and> rec_IdempotencyKey stored \<noteq> req_IdempotencyKey example_request"
    by (auto simp: runs_GetAttemptRecord_def example_record_defs example_defs)
  from n1 n2 n3 e1 e2 m show ?thesis by simp
qed

text \<open>
  Claim C2 does not hold on the code, for the reason that claim C1 fails. The first
  attempt at step \<open>s-1\<close>, with the key \<open>idem-key-1\<close>, settles the step, stores the
  attempt record under that key and advances the run to step 2. A second attempt at the
  same (run, step) with the key \<open>idem-key-2\<close> is then rejected with \<open>ErrWrongStepOrder\<close>,
  not with \<open>ErrAlreadyHandled\<close>: the order check comes before the look-up of the attempt
  record, so the comparison of the keys is never reached. The second call grants no
  reward: it returns the datastore it was given. Lemma \<open>repeat_after_settlement_fails\<close>
  shows the rejection for every settlement and every later request, lemma
  \<open>Attempt_different_key\<close> that the comparison rejects a different non-empty key once it
  is reached.
\<close>

theorem second_call_with_other_key_is_wrong_step_order:
  "\<not> isl (fst (Attempt id 10 ''a-1'' ''p-1'' ''run-1'' ''s-1'' example_request example_world))
   \<and> (\<exists>stored. runs_GetAttemptRecord ''run-1'' ''s-1'' example_world_after_step1 = Inr stored
         \<and> rec_IdempotencyKey stored = ''idem-key-1''
         \<and> rec_RewardApplied stored
         \<and> rec_IdempotencyKey stored \<noteq> req_IdempotencyKey example_other_key_request)
   \<and> validate_AttemptRequest example_other_key_request
   \<and> Attempt id 11 ''a-2'' ''p-1'' ''run-1'' ''s-1'' example_other_key_request
        example_world_after_step1 =
       (Inl (Err [''expected step order %d got %d''] ErrWrongStepOrder),
        example_world_after_step1)"
  by (simp add: example_world_after_step1_def example_other_key_request_def attempt_defs
        example_defs)

text \<open>
  Claim C1 does not hold on the code. The first attempt at step \<open>s-1\<close> succeeds and
  advances the run to step 2. Repeating the same call (same run, step and idempotency
  key) is then rejected with \<open>ErrWrongStepOrder\<close>, because the order check comes before
  the look-up of the attempt record: the stored response is not replayed. Lemma
  \<open>repeat_after_settlement_fails\<close> shows this for every settlement.
\<close>

theorem replay_after_success_is_rejected:
  "fst (Attempt id 10 ''a-1'' ''p-1'' ''run-1'' ''s-1'' example_request example_world) =
     Inr \<lparr>ar_RunID = ''run-1'', ar_StepID = ''s-1'', ar_DistanceM = Finite 0,
          ar_Rewards = bs_Rewards example_step1,
          ar_Run = example_run
            \<lparr>r_CurrentStep := 2,
             r_KilledSteps := [\<lparr>ks_BossStepID = ''s-1'', ks_KilledAt = 10, ks_AttemptID = ''a-1''\<rparr>],
             r_UpdatedAt := 10\<rparr>,
          ar_Player = example_player\<lparr>p_Gold := 55, p_UpdatedAt := 10\<rparr>,
          ar_Idempotency = False\<rparr>
   \<and> Attempt id 11 ''a-2'' ''p-1'' ''run-1'' ''s-1'' example_request example_world_after_step1 =
       (Inl (Err [''expected step order %d got %d''] ErrWrongStepOrder), example_world_after_step1)"
  by (simp add: example_world_after_step1_def attempt_defs example_defs)

section \<open>Geofence evaluator claim\<close>


end
